theory Spec2Isabelle
  imports Complex_Main "HOL-Library.Log_Nat" "HOL-Library.Code_Target_Numeral"
begin

section \<open>JavaScript values and strings\<close>

text \<open>
  A JavaScript string is modelled as a \<open>string\<close> whose characters are the code units
  0 to 255 (ASCII and Latin-1, which hold every letter of the keywords the program looks
  for). \<open>String.prototype.toLowerCase\<close> maps A-Z and the Latin-1 capitals (192 to 222,
  without the multiplication sign 215) to the letter 32 places later and leaves every
  other code unit of this range as it is.
\<close>

definition lower_char :: "char \<Rightarrow> char" where
  "lower_char c =
     (let n = (of_char c :: nat) in
      if (65 \<le> n \<and> n \<le> 90) \<or> (192 \<le> n \<and> n \<le> 222 \<and> n \<noteq> 215)
      then char_of (n + 32) else c)"

definition toLowerCase :: "string \<Rightarrow> string" where
  "toLowerCase s = map lower_char s"

text \<open>\<open>s.includes(w)\<close>: \<open>w\<close> occurs in \<open>s\<close> as a contiguous run.\<close>

fun includes_js :: "string \<Rightarrow> string \<Rightarrow> bool" where
  "includes_js [] w = (w = [])"
| "includes_js (c # cs) w = (take (length w) (c # cs) = w \<or> includes_js cs w)"

text \<open>The class \<open>\d\<close> of a regular expression without the unicode flag: the ten ASCII digits.\<close>

definition is_digit :: "char \<Rightarrow> bool" where
  "is_digit c = (c \<in> set ''0123456789'')"

definition digit_val :: "char \<Rightarrow> nat" where
  "digit_val c = of_char c - 48"

definition digits_val :: "string \<Rightarrow> nat" where
  "digits_val ds = foldl (\<lambda>a c. 10 * a + digit_val c) 0 ds"

text \<open>
  A value parsed from JSON. Numbers are the rationals (every finite double is one);
  \<open>undefined\<close>, which JSON cannot hold, is the \<open>None\<close> of a \<open>json option\<close> where a
  property is read.
\<close>

datatype json =
  JNull
  | JBool bool
  | JNum rat
  | JStr string
  | JArr "json list"
  | JObj "(string \<times> json) list"

text \<open>
  A number that a computation yields: \<open>NaN\<close>, a double (by its value), or one of the
  two infinities. \<open>a >= b\<close> and \<open>a > b\<close> are false when either side is \<open>NaN\<close>.
\<close>

datatype js_number = NaN | Num rat | PosInfinity | NegInfinity

fun js_ge :: "js_number \<Rightarrow> js_number \<Rightarrow> bool" where
  "js_ge NaN b = False"
| "js_ge a NaN = False"
| "js_ge PosInfinity b = True"
| "js_ge a NegInfinity = True"
| "js_ge NegInfinity b = False"
| "js_ge a PosInfinity = False"
| "js_ge (Num x) (Num y) = (x \<ge> y)"

fun js_gt :: "js_number \<Rightarrow> js_number \<Rightarrow> bool" where
  "js_gt NaN b = False"
| "js_gt a NaN = False"
| "js_gt NegInfinity b = False"
| "js_gt a PosInfinity = False"
| "js_gt PosInfinity b = True"
| "js_gt a NegInfinity = True"
| "js_gt (Num x) (Num y) = (x > y)"

text \<open>
  The double that stands for an exact value, as arithmetic and \<open>parseFloat\<close> round
  their exact results (IEEE 754 binary64, to nearest, ties to the even significand).
  For \<open>x > 0\<close> with \<open>2^e \<le> x < 2^(e+1)\<close> the doubles around \<open>x\<close> are the multiples of
  \<open>2^(e-52)\<close>, and of \<open>2^(-1074)\<close> below \<open>2^(-1022)\<close>; a result of \<open>2^1024\<close> or more
  is an infinity. \<open>ilog2 x\<close> is that \<open>e\<close>, from the bit length of the integer part of
  \<open>x\<close>, or of \<open>1 / x\<close> rounded up when \<open>x < 1\<close>.
\<close>

definition ilog2 :: "rat \<Rightarrow> int" where
  "ilog2 x = (if x \<ge> 1 then bitlen \<lfloor>x\<rfloor> - 1 else - bitlen (\<lceil>1 / x\<rceil> - 1))"

definition scale2 :: "rat \<Rightarrow> int \<Rightarrow> rat" where
  "scale2 x k = (if k \<ge> 0 then x * 2 ^ nat k else x / 2 ^ nat (- k))"

definition round_half_even :: "rat \<Rightarrow> int" where
  "round_half_even q =
     (if q - of_int \<lfloor>q\<rfloor> < 1 / 2 then \<lfloor>q\<rfloor>
      else if q - of_int \<lfloor>q\<rfloor> > 1 / 2 then \<lfloor>q\<rfloor> + 1
      else if even \<lfloor>q\<rfloor> then \<lfloor>q\<rfloor> else \<lfloor>q\<rfloor> + 1)"

definition double_pos :: "rat \<Rightarrow> js_number" where
  "double_pos x =
     (let e = max (ilog2 x) (- 1022);
          v = scale2 (of_int (round_half_even (scale2 x (52 - e)))) (e - 52)
      in if v \<ge> 2 ^ 1024 then PosInfinity else Num v)"

definition double_of :: "rat \<Rightarrow> js_number" where
  "double_of x =
     (if x = 0 then Num 0
      else if x > 0 then double_pos x
      else (case double_pos (- x) of
              Num v \<Rightarrow> Num (- v)
            | PosInfinity \<Rightarrow> NegInfinity
            | y \<Rightarrow> y))"

text \<open>
  \<open>x * c\<close> for a finite \<open>c > 0\<close> and \<open>n + x\<close> for a finite \<open>n\<close>: \<open>NaN\<close> and the
  infinities stay as they are, a finite result is rounded.
\<close>

fun js_times :: "js_number \<Rightarrow> rat \<Rightarrow> js_number" where
  "js_times (Num a) c = double_of (a * c)"
| "js_times x c = x"

fun js_plus :: "rat \<Rightarrow> js_number \<Rightarrow> js_number" where
  "js_plus n (Num a) = double_of (n + a)"
| "js_plus n x = x"

text \<open>
  The built-in conversions of JavaScript that the model does not define are its
  parameters: the decimal text of a number, the number a string denotes (\<open>None\<close> is
  \<open>NaN\<close>), and the time value \<open>Date.parse\<close> gives a string (\<open>None\<close> is an invalid date).
\<close>

record js_lib =
  numberToString :: "rat \<Rightarrow> string"
  stringToNumber :: "string \<Rightarrow> rat option"
  dateParse :: "string \<Rightarrow> int option"

text \<open>
  \<open>new Date(v)\<close> for a number \<open>v\<close>: the time value is \<open>v\<close> cut to an integer, and
  the date is invalid (\<open>None\<close>) for \<open>NaN\<close>, an infinity, or more than 8.64e15
  milliseconds from the epoch.
\<close>

fun dateOfNumber :: "js_number \<Rightarrow> int option" where
  "dateOfNumber (Num v) =
     (if \<bar>v\<bar> > 8640000000000000 then None
      else Some (if v \<ge> 0 then \<lfloor>v\<rfloor> else \<lceil>v\<rceil>))"
| "dateOfNumber x = None"

fun truthy :: "json \<Rightarrow> bool" where
  "truthy JNull = False"
| "truthy (JBool b) = b"
| "truthy (JNum n) = (n \<noteq> 0)"
| "truthy (JStr s) = (s \<noteq> [])"
| "truthy (JArr xs) = True"
| "truthy (JObj kvs) = True"

definition truthy_opt :: "json option \<Rightarrow> bool" where
  "truthy_opt v = (case v of None \<Rightarrow> False | Some x \<Rightarrow> truthy x)"

text \<open>
  Reading a property of a value that is neither \<open>null\<close> nor \<open>undefined\<close>.
  \<open>JSON.parse\<close> keeps the last of several entries with the same key. The names read
  with \<open>js_get\<close> are the field names of the provider bodies, none of which is a
  property that strings, numbers, booleans or arrays have of their own; \<open>length\<close> and
  the index \<open>0\<close> are read with \<open>length_gt0\<close> and \<open>index0\<close> below.
\<close>

fun js_get :: "json \<Rightarrow> string \<Rightarrow> json option" where
  "js_get (JObj kvs) k = map_of (rev kvs) k"
| "js_get v k = None"

text \<open>Reading a property of what may be \<open>null\<close> or \<open>undefined\<close>: \<open>None\<close> is the TypeError.\<close>

fun js_read :: "json option \<Rightarrow> string \<Rightarrow> json option option" where
  "js_read None k = None"
| "js_read (Some JNull) k = None"
| "js_read (Some v) k = Some (js_get v k)"

text \<open>\<open>a || b\<close>, and \<open>a || ''\<close> whose value is never \<open>undefined\<close>.\<close>

definition js_or :: "json option \<Rightarrow> json option \<Rightarrow> json option" where
  "js_or a b = (if truthy_opt a then a else b)"

definition or_empty :: "json option \<Rightarrow> json" where
  "or_empty a = (case a of None \<Rightarrow> JStr [] | Some v \<Rightarrow> if truthy v then v else JStr [])"

text \<open>
  The conversion to a string, as a template literal and \<open>toString()\<close> make it;
  \<open>None\<close> is the TypeError of an object whose own \<open>toString\<close> entry, a JSON value,
  cannot be called. \<open>Array.prototype.join\<close> writes \<open>null\<close> elements as the empty string.
\<close>

fun intercalate :: "string \<Rightarrow> string list \<Rightarrow> string" where
  "intercalate sep [] = []"
| "intercalate sep [s] = s"
| "intercalate sep (s # t # ss) = s @ sep @ intercalate sep (t # ss)"

fun toStringJS :: "js_lib \<Rightarrow> json \<Rightarrow> string option"
  and elemsJS :: "js_lib \<Rightarrow> json list \<Rightarrow> string list option" where
  "toStringJS lib JNull = Some ''null''"
| "toStringJS lib (JBool b) = Some (if b then ''true'' else ''false'')"
| "toStringJS lib (JNum n) = Some (numberToString lib n)"
| "toStringJS lib (JStr s) = Some s"
| "toStringJS lib (JArr xs) = map_option (intercalate '','') (elemsJS lib xs)"
| "toStringJS lib (JObj kvs) =
     (if ''toString'' \<in> set (map fst kvs) then None else Some ''[object Object]'')"
| "elemsJS lib [] = Some []"
| "elemsJS lib (x # xs) =
     (case (if x = JNull then Some [] else toStringJS lib x) of
        None \<Rightarrow> None
      | Some s \<Rightarrow> map_option ((#) s) (elemsJS lib xs))"

definition toStringOpt :: "js_lib \<Rightarrow> json option \<Rightarrow> string option" where
  "toStringOpt lib v = (case v of None \<Rightarrow> Some ''undefined'' | Some x \<Rightarrow> toStringJS lib x)"

text \<open>The template literal \<open>`${a} - ${b}`\<close>.\<close>

definition template :: "js_lib \<Rightarrow> json option \<Rightarrow> json option \<Rightarrow> string option" where
  "template lib a b =
     (case toStringOpt lib a of
        None \<Rightarrow> None
      | Some x \<Rightarrow> (case toStringOpt lib b of None \<Rightarrow> None | Some y \<Rightarrow> Some (x @ '' - '' @ y)))"

text \<open>
  The conversion to a number: the outer \<open>None\<close> is a TypeError, the inner one \<open>NaN\<close>.
\<close>

definition toNumber :: "js_lib \<Rightarrow> json \<Rightarrow> rat option option" where
  "toNumber lib v =
     (case v of
        JNull \<Rightarrow> Some (Some 0)
      | JBool b \<Rightarrow> Some (Some (if b then 1 else 0))
      | JNum n \<Rightarrow> Some (Some n)
      | JStr s \<Rightarrow> Some (stringToNumber lib s)
      | _ \<Rightarrow> map_option (stringToNumber lib) (toStringJS lib v))"

text \<open>\<open>v.length > 0\<close> and \<open>v[0]\<close> for a truthy \<open>v\<close>.\<close>

definition length_gt0 :: "js_lib \<Rightarrow> json \<Rightarrow> bool option" where
  "length_gt0 lib v =
     (case v of
        JArr xs \<Rightarrow> Some (xs \<noteq> [])
      | JStr s \<Rightarrow> Some (s \<noteq> [])
      | JObj kvs \<Rightarrow>
          (case js_get v ''length'' of
             None \<Rightarrow> Some False
           | Some l \<Rightarrow>
               map_option (\<lambda>n. case n of None \<Rightarrow> False | Some r \<Rightarrow> r > 0) (toNumber lib l))
      | _ \<Rightarrow> Some False)"

definition index0 :: "json \<Rightarrow> json option" where
  "index0 v =
     (case v of
        JArr xs \<Rightarrow> (case xs of [] \<Rightarrow> None | x # _ \<Rightarrow> Some x)
      | JStr s \<Rightarrow> (case s of [] \<Rightarrow> None | c # _ \<Rightarrow> Some (JStr [c]))
      | JObj kvs \<Rightarrow> js_get v ''0''
      | _ \<Rightarrow> None)"


section \<open>Temporary download links (src/server.js, lines 24-123)\<close>

text \<open>
  The registry \<open>tempLinks\<close> is a JavaScript \<open>Map\<close> from link identifiers to link
  objects. It is modelled as a partial map that every operation takes and returns.
  Times are milliseconds since the epoch, as \<open>Date.now()\<close> gives them; the readings of
  the clock and the random identifier are arguments of the operations. \<open>fsize\<close> and
  \<open>fpath\<close> are the fields \<open>size\<close> and \<open>path\<close> of an uploaded file.

  \<open>maxDownloads\<close> is whatever number the caller passes, \<open>downloads\<close> the number that
  counts up from 0. \<open>expiresAt\<close> is a \<open>Date\<close>: its time value, or \<open>None\<close> for an
  invalid date.
\<close>

record file_ref =
  originalname :: string
  fsize :: nat
  fpath :: string

record temp_link =
  files :: "file_ref list"
  createdAt :: int
  downloads :: js_number
  maxDownloads :: js_number
  expiresAt :: "int option"
  active :: bool

type_synonym registry = "string \<rightharpoonup> temp_link"

text \<open>
  \<open>generateTempLink(files, maxDownloads = 5, expirationHours = 48)\<close>: \<open>linkId\<close> is the
  token \<open>crypto.randomBytes(8).toString('hex').toUpperCase()\<close>, \<open>agora\<close> the reading
  \<open>Date.now()\<close> and \<open>criado\<close> the reading \<open>new Date()\<close>. An absent \<open>files\<close> argument
  (\<open>None\<close>) is stored as the empty list (\<open>files || []\<close>); \<open>Map.set\<close> overwrites an
  entry already stored under the same identifier. \<open>maxD\<close> and \<open>expirationHours\<close> are
  the numbers passed, or the defaults; \<open>expiresAt\<close> is
  \<open>new Date(Date.now() + (expirationHours * 60 * 60 * 1000))\<close>.
\<close>

definition generateTempLink ::
  "string \<Rightarrow> int \<Rightarrow> int \<Rightarrow> file_ref list option \<Rightarrow> js_number \<Rightarrow> js_number \<Rightarrow>
   registry \<Rightarrow> string \<times> registry" where
  "generateTempLink linkId agora criado fs maxD expirationHours reg =
     (let expires =
            dateOfNumber
              (js_plus (of_int agora)
                 (js_times (js_times (js_times expirationHours 60) 60) 1000))
      in
      (linkId,
       reg(linkId \<mapsto> \<lparr>files = (case fs of None \<Rightarrow> [] | Some f \<Rightarrow> f),
                       createdAt = criado,
                       downloads = Num 0,
                       maxDownloads = maxD,
                       expiresAt = expires,
                       active = True\<rparr>)))"

text \<open>
  The reasons \<open>validateTempLink\<close> reports: 'Link nao encontrado', 'Link desativado',
  'Link expirado', 'Limite de downloads atingido'.
\<close>

datatype reason =
  Link_nao_encontrado
  | Link_desativado
  | Link_expirado
  | Limite_de_downloads_atingido

datatype validation = Invalid reason | Valid temp_link

text \<open>
  \<open>validateTempLink(linkId)\<close>, with \<open>agora\<close> the reading \<open>new Date()\<close>. The assignment
  \<open>link.active = false\<close> changes the object held by the map, so the model stores the
  changed record under the same key. \<open>new Date() > link.expiresAt\<close> compares the two
  time values and is false for an invalid date.
\<close>

definition date_gt :: "int \<Rightarrow> int option \<Rightarrow> bool" where
  "date_gt agora expires = (case expires of None \<Rightarrow> False | Some e \<Rightarrow> agora > e)"

definition validateTempLink :: "int \<Rightarrow> registry \<Rightarrow> string \<Rightarrow> validation \<times> registry" where
  "validateTempLink agora reg linkId =
     (case reg linkId of
        None \<Rightarrow> (Invalid Link_nao_encontrado, reg)
      | Some link \<Rightarrow>
          if \<not> active link then (Invalid Link_desativado, reg)
          else if date_gt agora (expiresAt link)
            then (Invalid Link_expirado, reg(linkId \<mapsto> link\<lparr>active := False\<rparr>))
          else if js_ge (downloads link) (maxDownloads link)
            then (Invalid Limite_de_downloads_atingido, reg(linkId \<mapsto> link\<lparr>active := False\<rparr>))
          else (Valid link, reg))"

text \<open>
  \<open>incrementDownload(linkId)\<close>: \<open>link.downloads++\<close> on the stored object, if there is
  one; the new count is the double for \<open>downloads + 1\<close>.
\<close>

definition incrementDownload :: "registry \<Rightarrow> string \<Rightarrow> registry" where
  "incrementDownload reg linkId =
     (case reg linkId of
        None \<Rightarrow> reg
      | Some link \<Rightarrow> reg(linkId \<mapsto> link\<lparr>downloads := js_plus 1 (downloads link)\<rparr>))"

text \<open>Sequences of the three operations, each with the arguments of its call.\<close>

datatype link_op =
  Issue string int int "file_ref list option" js_number js_number
  | Validate string int
  | Consume string

fun apply_op :: "registry \<Rightarrow> link_op \<Rightarrow> registry" where
  "apply_op reg (Issue linkId agora criado fs maxD hours) =
     snd (generateTempLink linkId agora criado fs maxD hours reg)"
| "apply_op reg (Validate linkId agora) = snd (validateTempLink agora reg linkId)"
| "apply_op reg (Consume linkId) = incrementDownload reg linkId"

fun run_ops :: "registry \<Rightarrow> link_op list \<Rightarrow> registry" where
  "run_ops reg [] = reg"
| "run_ops reg (op # ops) = run_ops (apply_op reg op) ops"

text \<open>The invariant of the data model: every stored record has \<open>downloads \<le> maxDownloads\<close>.\<close>

definition within_limit :: "registry \<Rightarrow> bool" where
  "within_limit reg =
     (\<forall>linkId link. reg linkId = Some link \<longrightarrow>
        js_ge (maxDownloads link) (downloads link))"

text \<open>A limit that is a non-negative integer.\<close>

fun nonneg_integer :: "js_number \<Rightarrow> bool" where
  "nonneg_integer (Num m) = (0 \<le> m \<and> m = of_int \<lfloor>m\<rfloor>)"
| "nonneg_integer x = False"

text \<open>
  The discipline of the download routes (\<open>/download/:linkId/file/:filename\<close> and
  \<open>/download/:linkId/zip\<close>): \<open>incrementDownload\<close> is called only after
  \<open>validateTempLink\<close> on the same identifier returned \<open>valid: true\<close>, with no other
  registry operation in between; the only caller of \<open>generateTempLink\<close> passes
  \<open>maxDownloads = 5\<close>, here any non-negative integer. \<open>pending\<close> is the identifier
  whose validation has just succeeded.
\<close>

fun disciplined :: "registry \<Rightarrow> string option \<Rightarrow> link_op list \<Rightarrow> bool" where
  "disciplined reg pending [] = True"
| "disciplined reg pending (Issue linkId agora criado fs maxD hours # ops) =
     (nonneg_integer maxD \<and>
      disciplined (apply_op reg (Issue linkId agora criado fs maxD hours)) None ops)"
| "disciplined reg pending (Validate linkId agora # ops) =
     disciplined (apply_op reg (Validate linkId agora))
       (case fst (validateTempLink agora reg linkId) of
          Valid link \<Rightarrow> Some linkId
        | Invalid r \<Rightarrow> None)
       ops"
| "disciplined reg pending (Consume linkId # ops) =
     (pending = Some linkId \<and> disciplined (apply_op reg (Consume linkId)) None ops)"


section \<open>The company profile and its normalisation (src/server.js, lines 217-359)\<close>

record endereco_t =
  logradouro :: json
  numero :: json
  complemento :: json
  bairro :: json
  municipio :: json
  uf :: json
  cep :: json

record socio_t =
  nome :: json
  qualificacao :: json
  dataEntrada :: json

record dados_cnpj =
  cnpj :: json
  razaoSocial :: json
  nomeFantasia :: json
  situacao :: json
  dataSituacao :: json
  motivoSituacao :: json
  dataAbertura :: json
  naturezaJuridica :: json
  porte :: json
  regimeTributario :: json
  capitalSocial :: json
  endereco :: endereco_t
  telefone :: json
  email :: json
  atividadePrincipal :: string
  atividadesSecundarias :: "string list"
  socios :: "socio_t list"
  dataUltimaAtualizacao :: json

text \<open>
  The messages of the failure objects: 'CNPJ deve ter 14 digitos', 'Nao foi possivel
  consultar o CNPJ no momento. Todas as APIs estao indisponiveis.', 'Dados incompletos
  retornados pela API', 'Erro ao processar dados da API'.
\<close>

datatype erro_msg =
  CNPJ_deve_ter_14_digitos
  | Todas_as_APIs_indisponiveis
  | Dados_incompletos
  | Erro_ao_processar

text \<open>
  The objects that \<open>normalizarDadosCNPJ\<close> and \<open>consultarCNPJ\<close> return:
  \<open>{success: false, error, source, consultedAt}\<close> or the normalised fields with
  \<open>success: true\<close> and \<open>source\<close>, \<open>official\<close>, \<open>consultedAt\<close>. A key the object
  does not have is \<open>None\<close>.
\<close>

datatype consulta =
  Falha erro_msg "string option" "string option"
  | Dados dados_cnpj "string option" "bool option" "string option"

fun success :: "consulta \<Rightarrow> bool" where
  "success (Falha e src ts) = False"
| "success (Dados d src off ts) = True"

fun source :: "consulta \<Rightarrow> string option" where
  "source (Falha e src ts) = src"
| "source (Dados d src off ts) = src"

fun official :: "consulta \<Rightarrow> bool option" where
  "official (Falha e src ts) = None"
| "official (Dados d src off ts) = off"

fun consultedAt :: "consulta \<Rightarrow> string option" where
  "consultedAt (Falha e src ts) = ts"
| "consultedAt (Dados d src off ts) = ts"

text \<open>The object \<open>normalized\<close> as it is initialised.\<close>

definition normalized0 :: dados_cnpj where
  "normalized0 =
     \<lparr>cnpj = JStr [], razaoSocial = JStr [], nomeFantasia = JStr [], situacao = JStr [],
      dataSituacao = JStr [], motivoSituacao = JStr [], dataAbertura = JStr [],
      naturezaJuridica = JStr [], porte = JStr [], regimeTributario = JStr [],
      capitalSocial = JStr [],
      endereco = \<lparr>logradouro = JStr [], numero = JStr [], complemento = JStr [],
                  bairro = JStr [], municipio = JStr [], uf = JStr [], cep = JStr []\<rparr>,
      telefone = JStr [], email = JStr [], atividadePrincipal = [],
      atividadesSecundarias = [], socios = [], dataUltimaAtualizacao = JStr []\<rparr>"

text \<open>
  \<open>xs.map(x => `${x.a} - ${x.b}`)\<close>: reading a property of a \<open>null\<close> element throws.
\<close>

fun map_template :: "js_lib \<Rightarrow> string \<Rightarrow> string \<Rightarrow> json list \<Rightarrow> string list option" where
  "map_template lib a b [] = Some []"
| "map_template lib a b (x # xs) =
     (case js_read (Some x) a of
        None \<Rightarrow> None
      | Some va \<Rightarrow>
          (case js_read (Some x) b of
             None \<Rightarrow> None
           | Some vb \<Rightarrow>
               (case template lib va vb of
                  None \<Rightarrow> None
                | Some s \<Rightarrow> map_option ((#) s) (map_template lib a b xs))))"

text \<open>The two callbacks that build the partner records from \<open>data.qsa\<close>.\<close>

fun map_socios_BrasilAPI :: "json list \<Rightarrow> socio_t list option" where
  "map_socios_BrasilAPI [] = Some []"
| "map_socios_BrasilAPI (x # xs) =
     (if x = JNull then None
      else map_option
             ((#) \<lparr>nome = or_empty (js_get x ''nome_socio''),
                   qualificacao = or_empty (js_get x ''qualificacao_socio''),
                   dataEntrada = or_empty (js_get x ''data_entrada_sociedade'')\<rparr>)
             (map_socios_BrasilAPI xs))"

fun map_socios_ReceitaWS :: "json list \<Rightarrow> socio_t list option" where
  "map_socios_ReceitaWS [] = Some []"
| "map_socios_ReceitaWS (x # xs) =
     (if x = JNull then None
      else map_option
             ((#) \<lparr>nome = or_empty (js_get x ''nome''),
                   qualificacao = or_empty (js_get x ''qual''),
                   dataEntrada = JStr []\<rparr>)
             (map_socios_ReceitaWS xs))"

text \<open>
  The branch \<open>apiName === 'BrasilAPI'\<close>; \<open>data\<close> is truthy there, so reading its
  properties does not throw. \<open>None\<close> is an exception thrown inside the branch.
\<close>

definition mapear_BrasilAPI :: "js_lib \<Rightarrow> json \<Rightarrow> dados_cnpj \<Rightarrow> dados_cnpj option" where
  "mapear_BrasilAPI lib data normalized =
     (let company_name =
            (case js_get data ''company'' of
               None \<Rightarrow> None
             | Some JNull \<Rightarrow> None
             | Some c \<Rightarrow> js_get c ''name'');
          n1 = normalized
            \<lparr>cnpj := or_empty (js_get data ''cnpj''),
             razaoSocial := or_empty (js_or (js_get data ''razao_social'') company_name),
             nomeFantasia := or_empty (js_or (js_get data ''nome_fantasia'') (js_get data ''alias'')),
             situacao := or_empty (js_or (js_get data ''descricao_situacao_cadastral'')
                                         (js_get data ''status'')),
             dataSituacao := or_empty (js_get data ''data_situacao_cadastral''),
             motivoSituacao := or_empty (js_get data ''descricao_motivo_situacao_cadastral''),
             dataAbertura := or_empty (js_or (js_get data ''data_inicio_atividade'')
                                             (js_get data ''founded'')),
             naturezaJuridica := or_empty (js_get data ''descricao_natureza_juridica''),
             porte := or_empty (js_or (js_get data ''descricao_porte'') (js_get data ''size'')),
             capitalSocial := or_empty (js_get data ''capital_social''),
             endereco :=
               \<lparr>logradouro = or_empty (js_get data ''logradouro''),
                numero = or_empty (js_get data ''numero''),
                complemento = or_empty (js_get data ''complemento''),
                bairro = or_empty (js_get data ''bairro''),
                municipio = or_empty (js_get data ''municipio''),
                uf = or_empty (js_get data ''uf''),
                cep = or_empty (js_get data ''cep'')\<rparr>,
             telefone := or_empty (js_get data ''ddd_telefone_1''),
             email := or_empty (js_get data ''email'')\<rparr>
      in
      case (case js_get data ''cnae_fiscal_principal'' of
              None \<Rightarrow> Some n1
            | Some p \<Rightarrow>
                if truthy p
                then map_option (\<lambda>s. n1\<lparr>atividadePrincipal := s\<rparr>)
                       (template lib (js_get p ''codigo'') (js_get p ''descricao''))
                else Some n1) of
        None \<Rightarrow> None
      | Some n2 \<Rightarrow>
          (case (case js_get data ''cnaes_secundarios'' of
                   Some (JArr xs) \<Rightarrow>
                     map_option (\<lambda>l. n2\<lparr>atividadesSecundarias := l\<rparr>)
                       (map_template lib ''codigo'' ''descricao'' xs)
                 | _ \<Rightarrow> Some n2) of
             None \<Rightarrow> None
           | Some n3 \<Rightarrow>
               (case js_get data ''qsa'' of
                  Some (JArr xs) \<Rightarrow>
                    map_option (\<lambda>l. n3\<lparr>socios := l\<rparr>) (map_socios_BrasilAPI xs)
                | _ \<Rightarrow> Some n3)))"

text \<open>The branch \<open>apiName === 'ReceitaWS'\<close>.\<close>

definition mapear_ReceitaWS :: "js_lib \<Rightarrow> json \<Rightarrow> dados_cnpj \<Rightarrow> dados_cnpj option" where
  "mapear_ReceitaWS lib data normalized =
     (let n1 = normalized
            \<lparr>cnpj := or_empty (js_get data ''cnpj''),
             razaoSocial := or_empty (js_get data ''nome''),
             nomeFantasia := or_empty (js_get data ''fantasia''),
             situacao := or_empty (js_get data ''situacao''),
             dataAbertura := or_empty (js_get data ''abertura''),
             naturezaJuridica := or_empty (js_get data ''natureza_juridica''),
             porte := or_empty (js_get data ''porte''),
             capitalSocial := or_empty (js_get data ''capital_social''),
             endereco :=
               \<lparr>logradouro = or_empty (js_get data ''logradouro''),
                numero = or_empty (js_get data ''numero''),
                complemento = or_empty (js_get data ''complemento''),
                bairro = or_empty (js_get data ''bairro''),
                municipio = or_empty (js_get data ''municipio''),
                uf = or_empty (js_get data ''uf''),
                cep = or_empty (js_get data ''cep'')\<rparr>,
             telefone := or_empty (js_get data ''telefone''),
             email := or_empty (js_get data ''email'')\<rparr>
      in
      case (case js_get data ''atividade_principal'' of
              None \<Rightarrow> Some n1
            | Some ap \<Rightarrow>
                if \<not> truthy ap then Some n1
                else
                  (case length_gt0 lib ap of
                     None \<Rightarrow> None
                   | Some False \<Rightarrow> Some n1
                   | Some True \<Rightarrow>
                       (let principal = index0 ap in
                        case js_read principal ''code'' of
                          None \<Rightarrow> None
                        | Some c \<Rightarrow>
                            (case js_read principal ''text'' of
                               None \<Rightarrow> None
                             | Some t \<Rightarrow>
                                 map_option (\<lambda>s. n1\<lparr>atividadePrincipal := s\<rparr>)
                                   (template lib c t))))) of
        None \<Rightarrow> None
      | Some n2 \<Rightarrow>
          (case (case js_get data ''atividades_secundarias'' of
                   Some (JArr xs) \<Rightarrow>
                     map_option (\<lambda>l. n2\<lparr>atividadesSecundarias := l\<rparr>)
                       (map_template lib ''code'' ''text'' xs)
                 | _ \<Rightarrow> Some n2) of
             None \<Rightarrow> None
           | Some n3 \<Rightarrow>
               (case js_get data ''qsa'' of
                  Some (JArr xs) \<Rightarrow>
                    map_option (\<lambda>l. n3\<lparr>socios := l\<rparr>) (map_socios_ReceitaWS xs)
                | _ \<Rightarrow> Some n3)))"

text \<open>
  \<open>normalizarDadosCNPJ(data, apiName)\<close>. An exception in the \<open>try\<close> block gives the
  failure of the \<open>catch\<close> block; a falsy \<open>razaoSocial\<close> gives the failure for
  incomplete data. For any other \<open>apiName\<close> neither branch runs and \<open>normalized\<close> keeps
  its initial fields.
\<close>

definition normalizarDadosCNPJ :: "js_lib \<Rightarrow> json \<Rightarrow> string \<Rightarrow> consulta" where
  "normalizarDadosCNPJ lib data apiName =
     (case (if apiName = ''BrasilAPI'' then mapear_BrasilAPI lib data normalized0
            else if apiName = ''ReceitaWS'' then mapear_ReceitaWS lib data normalized0
            else Some normalized0) of
        None \<Rightarrow> Falha Erro_ao_processar None None
      | Some normalized \<Rightarrow>
          if \<not> truthy (razaoSocial normalized) then Falha Dados_incompletos None None
          else Dados normalized None None None)"

section \<open>The lookup with fallback (src/server.js, lines 125-215)\<close>

text \<open>
  What \<open>fetch\<close> does with a URL is a parameter: \<open>None\<close> when the promise rejects
  (transport failure, timeout), otherwise \<open>response.ok\<close>, \<open>response.status\<close> and the
  value of \<open>response.json()\<close>, \<open>None\<close> when that throws.
\<close>

datatype resposta = Resposta bool nat "json option"

type_synonym rede = "string \<Rightarrow> resposta option"

record api =
  name :: string
  url :: string
  official_flag :: bool

definition apis :: "string \<Rightarrow> api list" where
  "apis cnpjLimpo =
     [\<lparr>name = ''BrasilAPI'', url = ''https://brasilapi.com.br/api/cnpj/v1/'' @ cnpjLimpo,
       official_flag = True\<rparr>,
      \<lparr>name = ''ReceitaWS'', url = ''https://www.receitaws.com.br/v1/cnpj/'' @ cnpjLimpo,
       official_flag = False\<rparr>,
      \<lparr>name = ''CNPJ.ws'', url = ''https://cnpj.ws/cnpj/'' @ cnpjLimpo,
       official_flag = False\<rparr>]"

text \<open>
  One pass of the body of \<open>for (const api of apis)\<close>: \<open>Some\<close> is the object the body
  returns, \<open>None\<close> stands for \<open>continue\<close>, for the exception the \<open>catch\<close> block absorbs
  and for falling out of the \<open>try\<close> block. \<open>ts\<close> is \<open>new Date().toISOString()\<close>.
\<close>

definition tentar_api :: "js_lib \<Rightarrow> rede \<Rightarrow> string \<Rightarrow> api \<Rightarrow> consulta option" where
  "tentar_api lib rede ts a =
     (case rede (url a) of
        None \<Rightarrow> None
      | Some (Resposta ok status body) \<Rightarrow>
          if \<not> ok then None
          else
            (case body of
               None \<Rightarrow> None
             | Some data \<Rightarrow>
                 if \<not> truthy data \<or> js_get data ''status'' = Some (JStr ''ERROR'') then None
                 else
                   (case normalizarDadosCNPJ lib data (name a) of
                      Dados normalized src off t \<Rightarrow>
                        Some (Dados normalized (Some (name a)) (Some (official_flag a)) (Some ts))
                    | Falha e src t \<Rightarrow> None)))"

text \<open>
  The loop, with the URLs requested in the order of the requests as second component.
\<close>

fun percorrer :: "js_lib \<Rightarrow> rede \<Rightarrow> string \<Rightarrow> api list \<Rightarrow> consulta \<times> string list" where
  "percorrer lib rede ts [] =
     (Falha Todas_as_APIs_indisponiveis (Some ''todas_apis_falharam'') (Some ts), [])"
| "percorrer lib rede ts (a # rest) =
     (case tentar_api lib rede ts a of
        Some r \<Rightarrow> (r, [url a])
      | None \<Rightarrow> (let (r, urls) = percorrer lib rede ts rest in (r, url a # urls)))"

definition consultarCNPJ :: "js_lib \<Rightarrow> rede \<Rightarrow> string \<Rightarrow> string \<Rightarrow> consulta \<times> string list" where
  "consultarCNPJ lib rede ts cnpj_in =
     (let cnpjLimpo = filter is_digit cnpj_in in
      if length cnpjLimpo \<noteq> 14
      then (Falha CNPJ_deve_ter_14_digitos (Some ''validacao'') None, [])
      else percorrer lib rede ts (apis cnpjLimpo))"


section \<open>The estimated score (src/server.js, lines 361-562)\<close>

text \<open>
  The classifications 'Indisponivel', 'Excelente', 'Bom', 'Regular', 'Baixo', 'Critico'
  and 'Erro'; the factor messages pushed to \<open>fatores\<close>, one constructor for each
  message of the source, with the number a message prints as argument; and the five
  sentences of \<open>gerarRecomendacao\<close>.
\<close>

datatype classificacao_t = Indisponivel | Excelente | Bom | Regular | Baixo | Critico | Erro

datatype fator =
  Dados_nao_disponiveis
  | Situacao_ativa
  | Situacao_suspensa
  | Situacao_irregular
  | Empresa_com_anos_ok int
  | Empresa_com_anos_alerta int
  | Empresa_nova int
  | Empresa_muito_recente
  | Capital_elevado
  | Capital_adequado
  | Capital_moderado
  | Capital_baixo
  | Capital_nao_informado
  | Atividade_baixo_risco
  | Atividade_medio_risco
  | Atividade_analise_especifica
  | Endereco_completo
  | Endereco_parcial
  | Endereco_incompleto
  | Erro_no_calculo

datatype recomendacao_t =
  Condicoes_preferenciais
  | Condicoes_padrao
  | Condicoes_restritivas
  | Garantias_adicionais
  | Analise_presencial

text \<open>The object \<open>detalhes\<close> with its five fields.\<close>

record detalhes_t =
  d_situacao :: int
  d_tempo_atividade :: int
  d_capital_social :: int
  d_atividade_principal :: int
  d_endereco :: int

text \<open>
  The locals \<open>pontuacao\<close>, \<open>fatores\<close> and \<open>detalhes\<close> of the \<open>try\<close> block are threaded
  through its five parts; \<open>None\<close> is an exception thrown in a part.
\<close>

type_synonym estado = "int \<times> fator list \<times> detalhes_t"

text \<open>1. Situacao cadastral. \<open>toLowerCase\<close> is a function of strings only.\<close>

fun passo_situacao :: "dados_cnpj \<Rightarrow> estado \<Rightarrow> estado option" where
  "passo_situacao dadosCNPJ (pontuacao, fatores, detalhes) =
     (if truthy (situacao dadosCNPJ) then
        (case situacao dadosCNPJ of
           JStr s \<Rightarrow>
             (let sit = toLowerCase s in
              if includes_js sit ''ativa''
              then Some (pontuacao + 30, fatores @ [Situacao_ativa], detalhes\<lparr>d_situacao := 30\<rparr>)
              else if includes_js sit ''suspensa''
              then Some (pontuacao + 10, fatores @ [Situacao_suspensa], detalhes\<lparr>d_situacao := 10\<rparr>)
              else Some (pontuacao, fatores @ [Situacao_irregular], detalhes))
         | _ \<Rightarrow> None)
      else Some (pontuacao, fatores, detalhes))"

text \<open>
  \<open>new Date(v)\<close> for a truthy \<open>v\<close>: the outer \<open>None\<close> is a TypeError of the conversion
  to a primitive, the inner one an invalid date. A number is the time value itself,
  cut to an integer, and invalid beyond 8.64e15 milliseconds.
\<close>

definition newDate :: "js_lib \<Rightarrow> json \<Rightarrow> int option option" where
  "newDate lib v =
     (case v of
        JStr s \<Rightarrow> Some (dateParse lib s)
      | JNum n \<Rightarrow>
          Some (if \<bar>n\<bar> > 8640000000000000 then None
                else Some (if n \<ge> 0 then \<lfloor>n\<rfloor> else \<lceil>n\<rceil>))
      | JBool b \<Rightarrow> Some (Some (if b then 1 else 0))
      | JNull \<Rightarrow> Some (Some 0)
      | _ \<Rightarrow> map_option (dateParse lib) (toStringJS lib v))"

text \<open>
  2. Tempo de atividade. \<open>hoje\<close> is the time value of \<open>new Date()\<close>. With an invalid
  date \<open>anosAtividade\<close> is \<open>NaN\<close> and every comparison fails.
\<close>

fun passo_tempo :: "js_lib \<Rightarrow> int \<Rightarrow> dados_cnpj \<Rightarrow> estado \<Rightarrow> estado option" where
  "passo_tempo lib hoje dadosCNPJ (pontuacao, fatores, detalhes) =
     (if truthy (dataAbertura dadosCNPJ) then
        (case newDate lib (dataAbertura dadosCNPJ) of
           None \<Rightarrow> None
         | Some None \<Rightarrow> Some (pontuacao, fatores @ [Empresa_muito_recente], detalhes)
         | Some (Some abertura) \<Rightarrow>
             (let anosAtividade = (of_int (hoje - abertura) :: rat) / (1000 * 60 * 60 * 24 * 365) in
              if anosAtividade \<ge> 5
              then Some (pontuacao + 25, fatores @ [Empresa_com_anos_ok \<lfloor>anosAtividade\<rfloor>],
                         detalhes\<lparr>d_tempo_atividade := 25\<rparr>)
              else if anosAtividade \<ge> 2
              then Some (pontuacao + 15, fatores @ [Empresa_com_anos_alerta \<lfloor>anosAtividade\<rfloor>],
                         detalhes\<lparr>d_tempo_atividade := 15\<rparr>)
              else if anosAtividade \<ge> 1
              then Some (pontuacao + 8, fatores @ [Empresa_nova \<lfloor>anosAtividade\<rfloor>],
                         detalhes\<lparr>d_tempo_atividade := 8\<rparr>)
              else Some (pontuacao, fatores @ [Empresa_muito_recente], detalhes)))
      else Some (pontuacao, fatores, detalhes))"

text \<open>
  \<open>s.replace(',', '.')\<close> replaces the first comma. \<open>parseFloat\<close> reads the longest
  prefix that is a decimal literal; on the strings that reach it here (digits, at most
  one point, commas only after the point) that is the digits, and a point with the
  digits after it; its value is the double for the decimal read, and \<open>NaN\<close> when the
  string starts with neither a digit nor a point followed by a digit.
\<close>

fun replace_comma :: "string \<Rightarrow> string" where
  "replace_comma [] = []"
| "replace_comma (c # cs) = (if c = CHR '','' then CHR ''.'' # cs else c # replace_comma cs)"

definition parseFloat :: "string \<Rightarrow> js_number" where
  "parseFloat s =
     (let ip = takeWhile is_digit s;
          rest = dropWhile is_digit s;
          fp = (case rest of [] \<Rightarrow> [] | c # r \<Rightarrow> if c = CHR ''.'' then takeWhile is_digit r else [])
      in if ip = [] \<and> fp = [] then NaN
         else double_of (of_nat (digits_val ip) + of_nat (digits_val fp) / 10 ^ length fp))"

definition parse_capital :: "string \<Rightarrow> js_number" where
  "parse_capital txt = parseFloat (replace_comma (filter (\<lambda>c. is_digit c \<or> c = CHR '','') txt))"

text \<open>3. Capital social.\<close>

fun passo_capital :: "js_lib \<Rightarrow> dados_cnpj \<Rightarrow> estado \<Rightarrow> estado option" where
  "passo_capital lib dadosCNPJ (pontuacao, fatores, detalhes) =
     (if truthy (capitalSocial dadosCNPJ) then
        (case toStringJS lib (capitalSocial dadosCNPJ) of
           None \<Rightarrow> None
         | Some txt \<Rightarrow>
             (let capital = parse_capital txt in
              if js_ge capital (Num 1000000)
              then Some (pontuacao + 20, fatores @ [Capital_elevado],
                         detalhes\<lparr>d_capital_social := 20\<rparr>)
              else if js_ge capital (Num 100000)
              then Some (pontuacao + 15, fatores @ [Capital_adequado],
                         detalhes\<lparr>d_capital_social := 15\<rparr>)
              else if js_ge capital (Num 10000)
              then Some (pontuacao + 10, fatores @ [Capital_moderado],
                         detalhes\<lparr>d_capital_social := 10\<rparr>)
              else if js_gt capital (Num 0)
              then Some (pontuacao + 5, fatores @ [Capital_baixo],
                         detalhes\<lparr>d_capital_social := 5\<rparr>)
              else Some (pontuacao, fatores @ [Capital_nao_informado], detalhes)))
      else Some (pontuacao, fatores, detalhes))"

text \<open>4. Atividade principal, with the two keyword lists of the source.\<close>

definition atividadesBaixoRisco :: "string list" where
  "atividadesBaixoRisco =
     [''consultoria'', ''tecnologia'', ''software'',
      ''educa'' @ [CHR 0xE7, CHR 0xE3] @ ''o'', ''sa'' @ [CHR 0xFA] @ ''de'',
      ''engenharia'', ''arquitetura'', ''advocacia'', ''contabilidade'']"

definition atividadesMedioRisco :: "string list" where
  "atividadesMedioRisco =
     [''com'' @ [CHR 0xE9] @ ''rcio'', ''varejo'', ''atacado'',
      ''ind'' @ [CHR 0xFA] @ ''stria'', ''constru'' @ [CHR 0xE7, CHR 0xE3] @ ''o'',
      ''transporte'', ''log'' @ [CHR 0xED] @ ''stica'',
      ''alimenta'' @ [CHR 0xE7, CHR 0xE3] @ ''o'']"

fun passo_atividade :: "dados_cnpj \<Rightarrow> estado \<Rightarrow> estado option" where
  "passo_atividade dadosCNPJ (pontuacao, fatores, detalhes) =
     (if atividadePrincipal dadosCNPJ \<noteq> [] then
        (let atividade = toLowerCase (atividadePrincipal dadosCNPJ) in
         if list_ex (\<lambda>palavra. includes_js atividade palavra) atividadesBaixoRisco
         then Some (pontuacao + 15, fatores @ [Atividade_baixo_risco],
                    detalhes\<lparr>d_atividade_principal := 15\<rparr>)
         else if list_ex (\<lambda>palavra. includes_js atividade palavra) atividadesMedioRisco
         then Some (pontuacao + 10, fatores @ [Atividade_medio_risco],
                    detalhes\<lparr>d_atividade_principal := 10\<rparr>)
         else Some (pontuacao + 5, fatores @ [Atividade_analise_especifica],
                    detalhes\<lparr>d_atividade_principal := 5\<rparr>))
      else Some (pontuacao, fatores, detalhes))"

text \<open>5. Endereco completo; \<open>dadosCNPJ.endereco\<close> is an object, so it is truthy.\<close>

fun passo_endereco :: "dados_cnpj \<Rightarrow> estado \<Rightarrow> estado option" where
  "passo_endereco dadosCNPJ (pontuacao, fatores, detalhes) =
     (if truthy (logradouro (endereco dadosCNPJ)) \<and> truthy (cep (endereco dadosCNPJ))
      then Some (pontuacao + 10, fatores @ [Endereco_completo], detalhes\<lparr>d_endereco := 10\<rparr>)
      else if truthy (logradouro (endereco dadosCNPJ))
      then Some (pontuacao + 5, fatores @ [Endereco_parcial], detalhes\<lparr>d_endereco := 5\<rparr>)
      else Some (pontuacao, fatores @ [Endereco_incompleto], detalhes))"

definition classificar :: "int \<Rightarrow> classificacao_t \<times> string" where
  "classificar pontuacao =
     (if pontuacao \<ge> 80 then (Excelente, ''#28a745'')
      else if pontuacao \<ge> 60 then (Bom, ''#17a2b8'')
      else if pontuacao \<ge> 40 then (Regular, ''#ffc107'')
      else if pontuacao \<ge> 20 then (Baixo, ''#fd7e14'')
      else (Critico, ''#dc3545''))"

definition gerarRecomendacao :: "int \<Rightarrow> classificacao_t \<Rightarrow> recomendacao_t" where
  "gerarRecomendacao pontuacao cl =
     (if pontuacao \<ge> 80 then Condicoes_preferenciais
      else if pontuacao \<ge> 60 then Condicoes_padrao
      else if pontuacao \<ge> 40 then Condicoes_restritivas
      else if pontuacao \<ge> 20 then Garantias_adicionais
      else Analise_presencial)"

definition detalhes0 :: detalhes_t where
  "detalhes0 = \<lparr>d_situacao = 0, d_tempo_atividade = 0, d_capital_social = 0,
                d_atividade_principal = 0, d_endereco = 0\<rparr>"

text \<open>The five parts in the order of the source.\<close>

definition pontuar :: "js_lib \<Rightarrow> int \<Rightarrow> dados_cnpj \<Rightarrow> estado option" where
  "pontuar lib hoje dadosCNPJ =
     Option.bind (passo_situacao dadosCNPJ (0, [], detalhes0)) (\<lambda>e1.
     Option.bind (passo_tempo lib hoje dadosCNPJ e1) (\<lambda>e2.
     Option.bind (passo_capital lib dadosCNPJ e2) (\<lambda>e3.
     Option.bind (passo_atividade dadosCNPJ e3) (\<lambda>e4.
     passo_endereco dadosCNPJ e4))))"

text \<open>
  The result object. \<open>detalhes\<close> is listed by key, since the result of the \<open>catch\<close>
  block has the empty object there; a key that a result does not have is \<open>None\<close>.
  \<open>erro\<close> stands for the message of the exception caught.
\<close>

datatype js_error = TypeError

record score_result =
  score :: int
  classificacao :: classificacao_t
  cor :: "string option"
  fatores :: "fator list"
  detalhes :: "(string \<times> int) list"
  recomendacao :: "recomendacao_t option"
  calculadoEm :: "string option"
  erro :: "js_error option"

definition entries :: "detalhes_t \<Rightarrow> (string \<times> int) list" where
  "entries d =
     [(''situacao'', d_situacao d),
      (''tempo_atividade'', d_tempo_atividade d),
      (''capital_social'', d_capital_social d),
      (''atividade_principal'', d_atividade_principal d),
      (''endereco'', d_endereco d)]"

text \<open>
  \<open>calcularScoreEstimado(dadosCNPJ)\<close>; \<open>None\<close> is \<open>null\<close>, \<open>hoje\<close> the time value of
  \<open>new Date()\<close> in the second part and \<open>calculado\<close> the text
  \<open>new Date().toISOString()\<close> of the result.
\<close>

definition calcularScoreEstimado ::
  "js_lib \<Rightarrow> int \<Rightarrow> string \<Rightarrow> consulta option \<Rightarrow> score_result" where
  "calcularScoreEstimado lib hoje calculado dadosCNPJ =
     (let indisponivel =
            \<lparr>score = 0, classificacao = Indisponivel, cor = None,
             fatores = [Dados_nao_disponiveis], detalhes = entries detalhes0,
             recomendacao = None, calculadoEm = None, erro = None\<rparr>
      in
      case dadosCNPJ of
        None \<Rightarrow> indisponivel
      | Some (Falha e src ts) \<Rightarrow> indisponivel
      | Some (Dados d src off ts) \<Rightarrow>
          (case pontuar lib hoje d of
             None \<Rightarrow>
               \<lparr>score = 0, classificacao = Erro, cor = None, fatores = [Erro_no_calculo],
                detalhes = [], recomendacao = None, calculadoEm = None, erro = Some TypeError\<rparr>
           | Some (pontuacao, fs, ds) \<Rightarrow>
               \<lparr>score = pontuacao,
                classificacao = fst (classificar pontuacao),
                cor = Some (snd (classificar pontuacao)),
                fatores = fs,
                detalhes = entries ds,
                recomendacao = Some (gerarRecomendacao pontuacao (fst (classificar pontuacao))),
                calculadoEm = Some calculado,
                erro = None\<rparr>))"

section \<open>Auxiliary notions and sample data\<close>

text \<open>
  After a validation that succeeded for \<open>pending\<close>, the record stored there has room
  for one more download.
\<close>

definition has_room :: "registry \<Rightarrow> string option \<Rightarrow> bool" where
  "has_room reg pending =
     (case pending of
        None \<Rightarrow> True
      | Some linkId \<Rightarrow>
          (case reg linkId of
             None \<Rightarrow> False
           | Some link \<Rightarrow> \<not> js_ge (downloads link) (maxDownloads link)))"

text \<open>
  The records that issues and consumptions leave: the limit is a non-negative integer
  and the count an integer from 0 to \<open>2^53\<close>, where a double stops counting.
\<close>

fun small_count :: "js_number \<Rightarrow> bool" where
  "small_count (Num c) = (0 \<le> c \<and> c \<le> 2 ^ 53 \<and> c = of_int \<lfloor>c\<rfloor>)"
| "small_count x = False"

definition integer_limits :: "registry \<Rightarrow> bool" where
  "integer_limits reg =
     (\<forall>linkId link. reg linkId = Some link \<longrightarrow>
        nonneg_integer (maxDownloads link) \<and> small_count (downloads link))"

text \<open>A link as \<open>generateTempLink(undefined, 5, 48)\<close> stores it at time 0.\<close>

definition link_exemplo :: temp_link where
  "link_exemplo = \<lparr>files = [], createdAt = 0, downloads = Num 0, maxDownloads = Num 5,
                    expiresAt = Some 172800000, active = True\<rparr>"

text \<open>
  The company profile of the data model: the registration status and the founding date
  are text, the capital is text or a number. On these profiles no statement of the
  \<open>try\<close> block of \<open>calcularScoreEstimado\<close> throws.
\<close>

fun is_text :: "json \<Rightarrow> bool" where
  "is_text (JStr s) = True"
| "is_text v = False"






text \<open>
  The profiles on which no statement of the \<open>try\<close> block throws: a truthy status is
  text (\<open>toLowerCase\<close> is a function of strings only), and a truthy founding date and
  a truthy capital can be converted to a primitive (the conversion throws for an
  object with an entry \<open>toString\<close> of its own).
\<close>

definition nao_lanca :: "js_lib \<Rightarrow> dados_cnpj \<Rightarrow> bool" where
  "nao_lanca lib d =
     ((truthy (situacao d) \<longrightarrow> is_text (situacao d)) \<and>
      (truthy (dataAbertura d) \<longrightarrow> newDate lib (dataAbertura d) \<noteq> None) \<and>
      (truthy (capitalSocial d) \<longrightarrow> toStringJS lib (capitalSocial d) \<noteq> None))"

text \<open>
  Sample data: conversions that know one date (1 January 2015, 00:00 UTC), a clock
  reading of 1 January 2022, and a profile as the BrasilAPI branch builds it.
\<close>

definition lib_exemplo :: js_lib where
  "lib_exemplo = \<lparr>numberToString = (\<lambda>n. []), stringToNumber = (\<lambda>s. None),
           dateParse = (\<lambda>s. if s = ''2015-01-01'' then Some 1420070400000 else None)\<rparr>"

definition dados_exemplo :: dados_cnpj where
  "dados_exemplo = normalized0\<lparr>razaoSocial := JStr ''ACME LTDA'', situacao := JStr ''SUSPENSA'',
     dataAbertura := JStr ''2015-01-01'', capitalSocial := JStr ''1.500.000,00''\<rparr>"

definition hoje_exemplo :: int where
  "hoje_exemplo = 1640995200000"

definition calculado_exemplo :: string where
  "calculado_exemplo = ''2022-01-01T00:00:00.000Z''"

definition consulta_exemplo :: consulta where
  "consulta_exemplo = Dados dados_exemplo (Some ''BrasilAPI'') (Some True) (Some ''2022-01-01T00:00:00.000Z'')"



text \<open>
  A body of BrasilAPI whose status is the number 2, and the profile that the BrasilAPI
  branch builds from it: \<open>success\<close> is true and \<open>situacao\<close> is not text.
\<close>

definition corpo_status_numerico :: json where
  "corpo_status_numerico =
     JObj [(''razao_social'', JStr ''ACME LTDA''),
           (''descricao_situacao_cadastral'', JNum 2),
           (''capital_social'', JStr ''2.000.000,00'')]"

definition dados_status_numerico :: dados_cnpj where
  "dados_status_numerico =
     normalized0\<lparr>razaoSocial := JStr ''ACME LTDA'', situacao := JNum 2,
                  capitalSocial := JStr ''2.000.000,00''\<rparr>"

text \<open>
  A response body with the field names of both providers, a network in which only
  ReceitaWS answers, one in which only CNPJ.ws answers, and the profile that the
  ReceitaWS branch builds from the body.
\<close>

definition corpo_exemplo :: json where
  "corpo_exemplo =
     JObj [(''nome'', JStr ''ACME LTDA''), (''razao_social'', JStr ''ACME LTDA''),
           (''situacao'', JStr ''ATIVA''),
           (''atividade_principal'',
              JArr [JObj [(''code'', JStr ''62.01-5-01''), (''text'', JStr ''Software'')]])]"

definition rede_exemplo :: rede where
  "rede_exemplo u =
     (if u = ''https://www.receitaws.com.br/v1/cnpj/11222333000181''
      then Some (Resposta True 200 (Some corpo_exemplo))
      else None)"

definition rede_terceiro :: rede where
  "rede_terceiro u =
     (if u = ''https://cnpj.ws/cnpj/11222333000181''
      then Some (Resposta True 200 (Some corpo_exemplo))
      else None)"

definition dados_receitaws :: dados_cnpj where
  "dados_receitaws =
     normalized0\<lparr>razaoSocial := JStr ''ACME LTDA'', situacao := JStr ''ATIVA'',
                  atividadePrincipal := ''62.01-5-01 - Software''\<rparr>"

section \<open>Properties of the rounding\<close>

text \<open>The integers from 0 to \<open>2^53\<close> are doubles: the rounding leaves them as they are.\<close>

lemma round_half_even_int: "round_half_even (of_int m) = m"
  by (simp add: round_half_even_def)

lemma double_pos_int:
  assumes "0 < n" and "n < 2 ^ 53"
  shows "double_pos (of_int n) = Num (of_int n)"
proof -
  have b1: "bitlen n \<le> 53"
    using assms(2) by (simp add: bitlen_le_iff_power)
  have b0: "1 \<le> bitlen n"
    using assms(1) by (simp add: bitlen_ge_iff_power)
  have il: "ilog2 (of_int n) = bitlen n - 1"
    using assms(1) by (simp add: ilog2_def)
  define k where "k = nat (53 - bitlen n)"
  have e: "max (ilog2 (of_int n)) (- 1022) = bitlen n - 1"
    using il b0 by simp
  have s1: "scale2 (of_int n) (52 - (bitlen n - 1)) = of_int (n * 2 ^ k)"
    using b1 by (simp add: scale2_def k_def)
  have s2: "scale2 (of_int (n * 2 ^ k)) (bitlen n - 1 - 52) = of_int n"
  proof (cases "bitlen n = 53")
    case True
    then show ?thesis by (simp add: scale2_def k_def)
  next
    case False
    with b1 have "bitlen n - 1 - 52 < 0" by simp
    moreover have "nat (- (bitlen n - 1 - 52)) = k" by (simp add: k_def)
    ultimately show ?thesis by (simp add: scale2_def)
  qed
  have lt: "(of_int n :: rat) < 2 ^ 1024"
  proof -
    have "n < 2 ^ 1024" using assms(2) by (rule less_trans) simp
    then have "(of_int n :: rat) < of_int (2 ^ 1024)" by (simp only: of_int_less_iff)
    then show ?thesis by simp
  qed
  show ?thesis
    unfolding double_pos_def Let_def e s1 round_half_even_int s2
    using lt by simp
qed

lemma double_of_int:
  assumes "0 \<le> n" and "n < 2 ^ 53"
  shows "double_of (of_int n) = Num (of_int n)"
proof (cases "n = 0")
  case True
  then show ?thesis by (simp add: double_of_def)
next
  case False
  with assms have "0 < n" by simp
  then show ?thesis
    using double_pos_int[OF _ assms(2)] by (simp add: double_of_def)
qed

lemma double_of_numeral:
  "numeral k < (2 :: int) ^ 53 \<Longrightarrow> double_of (numeral k) = Num (numeral k)"
  using double_of_int[of "numeral k"] by simp

lemma double_of_0: "double_of 0 = Num 0"
  by (simp add: double_of_def)

text \<open>At \<open>2^53\<close> the count stays: \<open>2^53 + 1\<close> lies halfway between two doubles.\<close>

lemma bitlen_2_53: "bitlen (2 ^ 53) = 54" "bitlen (2 ^ 53 + 1) = 54"
proof -
  have "bitlen (2 ^ 53) \<le> 54" "54 \<le> bitlen (2 ^ 53)"
    by (simp_all add: bitlen_le_iff_power bitlen_ge_iff_power)
  then show "bitlen (2 ^ 53) = 54" by simp
  have "bitlen (2 ^ 53 + 1) \<le> 54" "54 \<le> bitlen (2 ^ 53 + 1)"
    by (simp_all add: bitlen_le_iff_power bitlen_ge_iff_power)
  then show "bitlen (2 ^ 53 + 1) = 54" by simp
qed

lemma double_pos_eval:
  assumes "ilog2 x = e" and "- 1022 \<le> e"
    and "round_half_even (scale2 x (52 - e)) = r"
    and "scale2 (of_int r) (e - 52) = v" and "v < 2 ^ 1024"
  shows "double_pos x = Num v"
  using assms by (simp add: double_pos_def Let_def max_def)

lemma double_of_pos: "0 < x \<Longrightarrow> double_of x = double_pos x"
  by (simp add: double_of_def)

lemma double_of_2_53: "double_of (2 ^ 53) = Num (2 ^ 53)"
proof -
  have f: "\<lfloor>(2 :: rat) ^ 53\<rfloor> = 2 ^ 53"
    by (metis floor_of_int of_int_numeral of_int_power)
  have "(1 :: rat) \<le> 2 ^ 53" by simp
  then have "ilog2 (2 ^ 53) = bitlen \<lfloor>(2 :: rat) ^ 53\<rfloor> - 1"
    by (simp only: ilog2_def if_True)
  then have i: "ilog2 (2 ^ 53) = 53"
    by (simp only: f bitlen_2_53)
  have s: "scale2 (2 ^ 53) (52 - 53) = of_int (2 ^ 52)"
    by (simp add: scale2_def)
  have "double_pos (2 ^ 53) = Num (2 ^ 53)"
  proof (rule double_pos_eval[where e = 53 and r = "2 ^ 52"])
    show "ilog2 (2 ^ 53) = 53" by (fact i)
    show "- 1022 \<le> (53 :: int)" by simp
    show "round_half_even (scale2 (2 ^ 53) (52 - 53)) = 2 ^ 52"
      unfolding s by (rule round_half_even_int)
    show "scale2 (of_int (2 ^ 52)) (53 - 52) = 2 ^ 53" by (simp add: scale2_def)
    show "(2 :: rat) ^ 53 < 2 ^ 1024" by simp
  qed
  then show ?thesis using double_of_pos[of "2 ^ 53"] by simp
qed

lemma double_of_2_53_1: "double_of (2 ^ 53 + 1) = Num (2 ^ 53)"
proof -
  have f: "\<lfloor>(2 :: rat) ^ 53 + 1\<rfloor> = 2 ^ 53 + 1"
    by (metis floor_of_int of_int_numeral of_int_power of_int_add of_int_1)
  have "(1 :: rat) \<le> 2 ^ 53 + 1" by simp
  then have "ilog2 (2 ^ 53 + 1) = bitlen \<lfloor>(2 :: rat) ^ 53 + 1\<rfloor> - 1"
    by (simp only: ilog2_def if_True)
  then have i: "ilog2 (2 ^ 53 + 1) = 53"
    by (simp only: f bitlen_2_53)
  have s: "scale2 (2 ^ 53 + 1) (52 - 53) = of_int (2 ^ 52) + 1 / 2"
    by (simp add: scale2_def add_divide_distrib)
  have fl: "\<lfloor>(of_int (2 ^ 52) :: rat) + 1 / 2\<rfloor> = 2 ^ 52"
    by (rule floor_unique) simp_all
  have r: "round_half_even (of_int (2 ^ 52) + 1 / 2) = 2 ^ 52"
    unfolding round_half_even_def fl by simp
  have "double_pos (2 ^ 53 + 1) = Num (2 ^ 53)"
  proof (rule double_pos_eval[where e = 53 and r = "2 ^ 52"])
    show "ilog2 (2 ^ 53 + 1) = 53" by (fact i)
    show "- 1022 \<le> (53 :: int)" by simp
    show "round_half_even (scale2 (2 ^ 53 + 1) (52 - 53)) = 2 ^ 52"
      unfolding s by (rule r)
    show "scale2 (of_int (2 ^ 52)) (53 - 52) = 2 ^ 53" by (simp add: scale2_def)
    show "(2 :: rat) ^ 53 < 2 ^ 1024" by simp
  qed
  then show ?thesis using double_of_pos[of "2 ^ 53 + 1"] by simp
qed

section \<open>Properties of the temporary links\<close>

lemma within_limit_empty: "within_limit Map.empty \<and> integer_limits Map.empty"
  by (simp add: within_limit_def integer_limits_def)

lemma nonneg_integer_Num:
  "nonneg_integer m \<Longrightarrow> \<exists>n. m = Num (of_int n) \<and> 0 \<le> n"
  by (cases m) (auto intro: exI[of _ "\<lfloor>_\<rfloor>"])

lemma small_count_Num:
  "small_count c \<Longrightarrow> \<exists>k. c = Num (of_int k) \<and> 0 \<le> k \<and> k \<le> 2 ^ 53"
proof (cases c)
  case (Num x)
  assume "small_count c"
  with Num have x: "0 \<le> x" "x \<le> 2 ^ 53" "x = of_int \<lfloor>x\<rfloor>" by simp_all
  have "(of_int \<lfloor>x\<rfloor> :: rat) \<le> of_int (2 ^ 53)" using x(2,3) by simp
  then have "\<lfloor>x\<rfloor> \<le> 2 ^ 53" by (simp only: of_int_le_iff)
  moreover have "0 \<le> \<lfloor>x\<rfloor>" using x(1) by simp
  ultimately show ?thesis using Num x(3) by blast
qed simp_all

text \<open>Adding 1 to a count from 0 to \<open>2^53\<close>: exact below \<open>2^53\<close>, unchanged at \<open>2^53\<close>.\<close>

lemma js_plus_count:
  assumes "0 \<le> k" and "k \<le> 2 ^ 53"
  shows "js_plus 1 (Num (of_int k)) = Num (of_int (if k < 2 ^ 53 then k + 1 else k))"
proof (cases "k + 1 < 2 ^ 53")
  case True
  then show ?thesis
    using double_of_int[of "k + 1"] assms(1) by (simp add: add.commute)
next
  case False
  with assms(2) consider "k + 1 = 2 ^ 53" | "k = 2 ^ 53" by linarith
  then show ?thesis
  proof cases
    case 1
    then have k: "k = 2 ^ 53 - 1" by simp
    have "(1 :: rat) + of_int (2 ^ 53 - 1) = 2 ^ 53" by simp
    then show ?thesis using double_of_2_53 unfolding k by simp
  next
    case 2
    have "(1 :: rat) + of_int (2 ^ 53) = 2 ^ 53 + 1" by simp
    then show ?thesis using double_of_2_53_1 unfolding 2 by simp
  qed
qed

lemma within_limit_issue:
  assumes "within_limit reg" and "integer_limits reg" and "nonneg_integer maxD"
  shows "within_limit (snd (generateTempLink linkId agora criado fs maxD hours reg)) \<and>
         integer_limits (snd (generateTempLink linkId agora criado fs maxD hours reg))"
proof -
  obtain n where "maxD = Num (of_int n)" "0 \<le> n"
    using nonneg_integer_Num[OF assms(3)] by blast
  with assms show ?thesis
    by (auto simp: within_limit_def integer_limits_def generateTempLink_def Let_def)
qed

lemma within_limit_validate:
  "within_limit reg \<Longrightarrow> within_limit (snd (validateTempLink agora reg linkId))"
  by (auto simp: within_limit_def validateTempLink_def split: option.splits if_splits)

lemma integer_limits_validate:
  "integer_limits reg \<Longrightarrow> integer_limits (snd (validateTempLink agora reg linkId))"
  by (auto simp: integer_limits_def validateTempLink_def split: option.splits if_splits)

lemma validate_valid_room:
  "fst (validateTempLink agora reg linkId) = Valid link \<Longrightarrow>
   snd (validateTempLink agora reg linkId) = reg \<and> reg linkId = Some link \<and>
   \<not> js_ge (downloads link) (maxDownloads link)"
  by (auto simp: validateTempLink_def split: option.splits if_splits)

lemma consume_room:
  assumes "integer_limits reg" and "reg linkId = Some link"
    and "\<not> js_ge (downloads link) (maxDownloads link)"
  shows "js_ge (maxDownloads link) (js_plus 1 (downloads link)) \<and>
         small_count (js_plus 1 (downloads link))"
proof -
  obtain n where n: "maxDownloads link = Num (of_int n)"
    using assms(1,2) nonneg_integer_Num[of "maxDownloads link"]
    by (auto simp: integer_limits_def)
  obtain k where k: "downloads link = Num (of_int k)" "0 \<le> k" "k \<le> 2 ^ 53"
    using assms(1,2) small_count_Num[of "downloads link"]
    by (auto simp: integer_limits_def)
  have lt: "k < n" using assms(3) n k(1) by simp
  have p: "js_plus 1 (downloads link) = Num (of_int (if k < 2 ^ 53 then k + 1 else k))"
    using js_plus_count[OF k(2,3)] k(1) by simp
  have le: "(if k < 2 ^ 53 then k + 1 else k) \<le> 2 ^ 53" using k(3) by simp
  have "(of_int (if k < 2 ^ 53 then k + 1 else k) :: rat) \<le> of_int (2 ^ 53)"
    using le by (simp only: of_int_le_iff)
  then have "small_count (Num (of_int (if k < 2 ^ 53 then k + 1 else k)))"
    using k(2) by simp
  moreover have "js_ge (Num (of_int n)) (Num (of_int (if k < 2 ^ 53 then k + 1 else k)))"
    using lt by simp
  ultimately show ?thesis using p n by simp
qed

lemma within_limit_consume:
  assumes "within_limit reg" and "integer_limits reg" and "reg linkId = Some link"
    and "\<not> js_ge (downloads link) (maxDownloads link)"
  shows "within_limit (incrementDownload reg linkId) \<and>
         integer_limits (incrementDownload reg linkId)"
  using consume_room[OF assms(2,3,4)] assms(1,2,3)
  by (auto simp: within_limit_def integer_limits_def incrementDownload_def)

lemma disciplined_within_limit:
  "within_limit reg \<Longrightarrow> integer_limits reg \<Longrightarrow> has_room reg pending \<Longrightarrow>
   disciplined reg pending ops \<Longrightarrow>
   within_limit (run_ops reg ops) \<and> integer_limits (run_ops reg ops)"
proof (induction reg pending ops rule: disciplined.induct)
  case (1 reg pending)
  then show ?case by simp
next
  case (2 reg pending linkId agora criado fs maxD hours ops)
  then show ?case
    using within_limit_issue[of reg maxD linkId agora criado fs hours]
    by (simp add: has_room_def)
next
  case (3 reg pending linkId agora ops)
  have w: "within_limit (apply_op reg (Validate linkId agora))"
    using 3(2) by (simp add: within_limit_validate)
  have i: "integer_limits (apply_op reg (Validate linkId agora))"
    using 3(3) by (simp add: integer_limits_validate)
  have r: "has_room (apply_op reg (Validate linkId agora))
        (case fst (validateTempLink agora reg linkId) of
           Valid link \<Rightarrow> Some linkId | Invalid r \<Rightarrow> None)"
    using validate_valid_room[of agora reg linkId]
    by (cases "fst (validateTempLink agora reg linkId)") (auto simp: has_room_def)
  show ?case using 3(1)[OF w i r] 3(5) by simp
next
  case (4 reg pending linkId ops)
  from 4(4,5) obtain link where l: "reg linkId = Some link"
    "\<not> js_ge (downloads link) (maxDownloads link)"
    by (auto simp: has_room_def split: option.splits)
  have w: "within_limit (apply_op reg (Consume linkId))"
    and i: "integer_limits (apply_op reg (Consume linkId))"
    using within_limit_consume[OF 4(2,3) l] by simp_all
  show ?case using 4(1)[OF w i] 4(5) by (simp add: has_room_def)
qed

text \<open>
  C1, as the code has it. The registry starts empty. \<open>generateTempLink\<close> stores
  \<open>downloads = 0\<close>, so it establishes \<open>downloads \<le> maxDownloads\<close> when \<open>maxDownloads\<close> is
  a non-negative integer; \<open>validateTempLink\<close> preserves the inequality for every
  record; \<open>incrementDownload\<close> adds one to \<open>downloads\<close> of a record that is present,
  leaves the registry as it is for an absent one, and preserves the inequality when
  it directly follows a \<open>validateTempLink\<close> of the same identifier that returned
  \<open>valid: true\<close>, which is how the download routes call it. Hence the inequality holds
  for every record after every sequence of the three operations that keeps this
  discipline and issues links with non-negative integer limits.
\<close>

theorem within_limit_disciplined:
  "(disciplined Map.empty None ops \<longrightarrow> within_limit (run_ops Map.empty ops)) \<and>
   (within_limit reg \<and> integer_limits reg \<and> disciplined reg None ops \<longrightarrow>
      within_limit (run_ops reg ops) \<and> integer_limits (run_ops reg ops)) \<and>
   (nonneg_integer maxD \<longrightarrow>
      (\<exists>link. snd (generateTempLink linkId agora criado fs maxD hours reg) linkId = Some link \<and>
              downloads link = Num 0 \<and> maxDownloads link = maxD \<and>
              js_ge (maxDownloads link) (downloads link))) \<and>
   (within_limit reg \<longrightarrow> within_limit (snd (validateTempLink agora reg linkId))) \<and>
   (reg linkId = Some l \<and> downloads l = Num (of_int k) \<and> 0 \<le> k \<and> k < 2 ^ 53 \<longrightarrow>
      incrementDownload reg linkId = reg(linkId \<mapsto> l\<lparr>downloads := Num (of_int (k + 1))\<rparr>)) \<and>
   (reg linkId = None \<longrightarrow> incrementDownload reg linkId = reg)"
proof -
  have a: "nonneg_integer maxD \<Longrightarrow>
      (\<exists>link. snd (generateTempLink linkId agora criado fs maxD hours reg) linkId = Some link \<and>
              downloads link = Num 0 \<and> maxDownloads link = maxD \<and>
              js_ge (maxDownloads link) (downloads link))"
    using nonneg_integer_Num[of maxD] by (auto simp: generateTempLink_def Let_def)
  have b: "incrementDownload reg linkId = reg(linkId \<mapsto> l\<lparr>downloads := Num (of_int (k + 1))\<rparr>)"
    if "reg linkId = Some l" "downloads l = Num (of_int k)" "0 \<le> k" "k < 2 ^ 53"
    using that js_plus_count[of k] by (simp add: incrementDownload_def)
  show ?thesis
    using disciplined_within_limit [of reg None ops]
      disciplined_within_limit [of Map.empty None ops] within_limit_empty a b
      within_limit_validate [of reg agora linkId]
    by (simp add: has_room_def incrementDownload_def)
qed

theorem within_limit_disciplined_witness:
  "within_limit Map.empty \<and> integer_limits Map.empty \<and> nonneg_integer (Num 1) \<and>
   disciplined Map.empty None
     [Issue ''A'' 0 0 None (Num 1) (Num 48), Validate ''A'' 1, Consume ''A'', Validate ''A'' 2] \<and>
   within_limit
     (run_ops Map.empty
        [Issue ''A'' 0 0 None (Num 1) (Num 48), Validate ''A'' 1, Consume ''A'', Validate ''A'' 2]) \<and>
   map_option (\<lambda>l. (downloads l, maxDownloads l, expiresAt l, active l))
     (run_ops Map.empty
        [Issue ''A'' 0 0 None (Num 1) (Num 48), Validate ''A'' 1, Consume ''A'', Validate ''A'' 2]
        ''A'') =
     Some (Num 1, Num 1, Some 172800000, False)"
  using within_limit_disciplined [where reg = Map.empty
      and ops = "[Issue ''A'' 0 0 None (Num 1) (Num 48), Validate ''A'' 1, Consume ''A'',
                  Validate ''A'' 2]"
      and maxD = "Num 1" and linkId = "''A''" and agora = 0 and criado = 0 and fs = None
      and hours = "Num 48" and l = link_exemplo and k = 0]
  by (simp add: within_limit_empty generateTempLink_def validateTempLink_def
      incrementDownload_def date_gt_def Let_def double_of_numeral double_of_int[of 1, simplified])

text \<open>
  C1 as stated fails: \<open>incrementDownload\<close> does not look at the limit, so two
  consumptions of a link issued with \<open>maxDownloads = 1\<close> leave \<open>downloads = 2\<close>; a
  link issued with a negative \<open>maxDownloads\<close> is above its limit from the start; and
  with \<open>maxDownloads = 0.5\<close> the validation succeeds at \<open>downloads = 0\<close> and the
  consumption that follows it leaves \<open>downloads = 1\<close>.
\<close>

theorem within_limit_unguarded_counterexample:
  "\<not> within_limit
       (run_ops Map.empty [Issue ''A'' 0 0 None (Num 1) (Num 48), Consume ''A'', Consume ''A'']) \<and>
   map_option (\<lambda>l. (downloads l, maxDownloads l))
     (run_ops Map.empty [Issue ''A'' 0 0 None (Num 1) (Num 48), Consume ''A'', Consume ''A'']
        ''A'') =
     Some (Num 2, Num 1) \<and>
   \<not> within_limit (run_ops Map.empty [Issue ''B'' 0 0 None (Num (- 1)) (Num 48)]) \<and>
   fst (validateTempLink 1
          (run_ops Map.empty [Issue ''C'' 0 0 None (Num (1 / 2)) (Num 48)]) ''C'') =
     Valid \<lparr>files = [], createdAt = 0, downloads = Num 0, maxDownloads = Num (1 / 2),
            expiresAt = Some 172800000, active = True\<rparr> \<and>
   \<not> within_limit
       (run_ops Map.empty
          [Issue ''C'' 0 0 None (Num (1 / 2)) (Num 48), Validate ''C'' 1, Consume ''C''])"
  by (simp add: within_limit_def generateTempLink_def validateTempLink_def
      incrementDownload_def date_gt_def Let_def double_of_numeral double_of_int[of 1, simplified])

text \<open>
  C6. \<open>validateTempLink\<close> reports 'Link nao encontrado' when no record is stored under
  the identifier, 'Link desativado' when the record has \<open>active = false\<close>, 'Link
  expirado' when the record is active and the clock is past \<open>expiresAt\<close>, 'Limite de
  downloads atingido' when it is active, not expired and \<open>downloads \<ge> maxDownloads\<close>;
  the last two set \<open>active = false\<close> on the stored record and the others leave the
  registry as it is. It returns \<open>valid: true\<close> with the record exactly when the record
  exists, is active, is not expired and does not have \<open>downloads \<ge> maxDownloads\<close>. The
  function has a result in each case: no branch raises.
\<close>

theorem validateTempLink_priority:
  "(reg linkId = None \<longrightarrow>
      validateTempLink agora reg linkId = (Invalid Link_nao_encontrado, reg)) \<and>
   (reg linkId = Some link \<and> \<not> active link \<longrightarrow>
      validateTempLink agora reg linkId = (Invalid Link_desativado, reg)) \<and>
   (reg linkId = Some link \<and> active link \<and> date_gt agora (expiresAt link) \<longrightarrow>
      validateTempLink agora reg linkId =
        (Invalid Link_expirado, reg(linkId \<mapsto> link\<lparr>active := False\<rparr>))) \<and>
   (reg linkId = Some link \<and> active link \<and> \<not> date_gt agora (expiresAt link) \<and>
    js_ge (downloads link) (maxDownloads link) \<longrightarrow>
      validateTempLink agora reg linkId =
        (Invalid Limite_de_downloads_atingido, reg(linkId \<mapsto> link\<lparr>active := False\<rparr>))) \<and>
   (fst (validateTempLink agora reg linkId) = Valid link \<longleftrightarrow>
      reg linkId = Some link \<and> active link \<and> \<not> date_gt agora (expiresAt link) \<and>
      \<not> js_ge (downloads link) (maxDownloads link)) \<and>
   (fst (validateTempLink agora reg linkId) = Valid link \<longrightarrow>
      snd (validateTempLink agora reg linkId) = reg) \<and>
   (date_gt agora (Some e) \<longleftrightarrow> agora > e) \<and>
   (js_ge (Num d) (Num m) \<longleftrightarrow> d \<ge> m)"
  by (auto simp: validateTempLink_def date_gt_def split: option.splits)

theorem validateTempLink_priority_witness:
  "validateTempLink 1 Map.empty ''A'' = (Invalid Link_nao_encontrado, Map.empty) \<and>
   validateTempLink 1 [''A'' \<mapsto> link_exemplo\<lparr>active := False\<rparr>] ''A'' =
     (Invalid Link_desativado, [''A'' \<mapsto> link_exemplo\<lparr>active := False\<rparr>]) \<and>
   validateTempLink 172800001 [''A'' \<mapsto> link_exemplo] ''A'' =
     (Invalid Link_expirado, [''A'' \<mapsto> link_exemplo\<lparr>active := False\<rparr>]) \<and>
   validateTempLink 1 [''A'' \<mapsto> link_exemplo\<lparr>downloads := Num 5\<rparr>] ''A'' =
     (Invalid Limite_de_downloads_atingido,
      [''A'' \<mapsto> link_exemplo\<lparr>downloads := Num 5, active := False\<rparr>]) \<and>
   fst (validateTempLink 1 [''A'' \<mapsto> link_exemplo] ''A'') = Valid link_exemplo"
  using validateTempLink_priority [of Map.empty "''A''" 1 link_exemplo 172800000 5 5]
    validateTempLink_priority [of "[''A'' \<mapsto> link_exemplo\<lparr>active := False\<rparr>]" "''A''" 1
      "link_exemplo\<lparr>active := False\<rparr>" 172800000 5 5]
    validateTempLink_priority [of "[''A'' \<mapsto> link_exemplo]" "''A''" 172800001 link_exemplo
      172800000 5 5]
    validateTempLink_priority [of "[''A'' \<mapsto> link_exemplo\<lparr>downloads := Num 5\<rparr>]" "''A''" 1
      "link_exemplo\<lparr>downloads := Num 5\<rparr>" 172800000 5 5]
    validateTempLink_priority [of "[''A'' \<mapsto> link_exemplo]" "''A''" 1 link_exemplo
      172800000 5 5]
  by (simp add: link_exemplo_def date_gt_def)

section \<open>Properties of the estimated score\<close>

text \<open>The definitions that evaluate the score of a given profile.\<close>

lemmas avaliar =
  calcularScoreEstimado_def pontuar_def normalized0_def lib_exemplo_def
  toLowerCase_def lower_char_def char_of_def bit_Suc_0_iff newDate_def parse_capital_def
  parseFloat_def is_digit_def digits_val_def digit_val_def detalhes0_def classificar_def
  gerarRecomendacao_def entries_def atividadesBaixoRisco_def atividadesMedioRisco_def Let_def
  floor_eq_iff double_of_numeral double_of_0













lemma passo_atividade_total: "passo_atividade d e \<noteq> None"
  by (cases e) (auto simp: Let_def)

lemma passo_endereco_total: "passo_endereco d e \<noteq> None"
  by (cases e) (auto simp: Let_def)


text \<open>A part throws exactly on the values that \<open>nao_lanca\<close> excludes.\<close>

lemma passo_situacao_None:
  "passo_situacao d e = None \<longleftrightarrow> truthy (situacao d) \<and> \<not> is_text (situacao d)"
  by (cases e; cases "situacao d") (auto simp: Let_def)

lemma passo_tempo_None:
  "passo_tempo lib hoje d e = None \<longleftrightarrow>
     truthy (dataAbertura d) \<and> newDate lib (dataAbertura d) = None"
  by (cases e) (auto simp: Let_def split: option.splits)

lemma passo_capital_None:
  "passo_capital lib d e = None \<longleftrightarrow>
     truthy (capitalSocial d) \<and> toStringJS lib (capitalSocial d) = None"
  by (cases e) (auto simp: Let_def split: option.splits)

lemma pontuar_None_iff: "pontuar lib hoje d = None \<longleftrightarrow> \<not> nao_lanca lib d"
proof
  assume n: "pontuar lib hoje d = None"
  show "\<not> nao_lanca lib d"
  proof
    assume ok: "nao_lanca lib d"
    obtain e1 where s1: "passo_situacao d (0, [], detalhes0) = Some e1"
      using passo_situacao_None[of d "(0, [], detalhes0)"] ok by (auto simp: nao_lanca_def)
    obtain e2 where s2: "passo_tempo lib hoje d e1 = Some e2"
      using passo_tempo_None[of lib hoje d e1] ok by (auto simp: nao_lanca_def)
    obtain e3 where s3: "passo_capital lib d e2 = Some e3"
      using passo_capital_None[of lib d e2] ok by (auto simp: nao_lanca_def)
    obtain e4 where s4: "passo_atividade d e3 = Some e4"
      using passo_atividade_total[of d e3] by auto
    obtain e5 where s5: "passo_endereco d e4 = Some e5"
      using passo_endereco_total[of d e4] by auto
    from s1 s2 s3 s4 s5 n show False by (simp add: pontuar_def)
  qed
next
  assume "\<not> nao_lanca lib d"
  then consider "truthy (situacao d) \<and> \<not> is_text (situacao d)"
    | "truthy (dataAbertura d) \<and> newDate lib (dataAbertura d) = None"
    | "truthy (capitalSocial d) \<and> toStringJS lib (capitalSocial d) = None"
    by (auto simp: nao_lanca_def)
  then show "pontuar lib hoje d = None"
  proof cases
    case 1
    then have "passo_situacao d (0, [], detalhes0) = None"
      using passo_situacao_None[of d "(0, [], detalhes0)"] by blast
    then show ?thesis by (simp add: pontuar_def)
  next
    case 2
    then have "passo_tempo lib hoje d e = None" for e
      using passo_tempo_None[of lib hoje d e] by blast
    then show ?thesis
      by (cases "passo_situacao d (0, [], detalhes0)") (simp_all add: pontuar_def)
  next
    case 3
    then have c: "passo_capital lib d e = None" for e
      using passo_capital_None[of lib d e] by blast
    show ?thesis
    proof (cases "passo_situacao d (0, [], detalhes0)")
      case None
      then show ?thesis by (simp add: pontuar_def)
    next
      case (Some e1)
      then show ?thesis
        by (cases "passo_tempo lib hoje d e1") (simp_all add: pontuar_def c)
    qed
  qed
qed

lemma erro_resultado:
  assumes "pontuar lib hoje d = None"
  shows "calcularScoreEstimado lib hoje calculado (Some (Dados d src off ts)) =
           \<lparr>score = 0, classificacao = Erro, cor = None, fatores = [Erro_no_calculo],
            detalhes = [], recomendacao = None, calculadoEm = None, erro = Some TypeError\<rparr>"
  using assms by (simp add: calcularScoreEstimado_def)

lemma detalhes_resultado:
  assumes "pontuar lib hoje d = Some (p, f, det)"
  shows "calcularScoreEstimado lib hoje calculado (Some (Dados d src off ts)) =
           \<lparr>score = p, classificacao = fst (classificar p), cor = Some (snd (classificar p)),
            fatores = f, detalhes = entries det,
            recomendacao = Some (gerarRecomendacao p (fst (classificar p))),
            calculadoEm = Some calculado, erro = None\<rparr>"
  using assms by (simp add: calcularScoreEstimado_def)

text \<open>
  C2. The claim gives 15 points to a status text that contains 'suspensa', as the
  scoring table of the dashboard documentation does ('Suspensa: 15 pontos'); the code
  adds 10. For the profile with \<open>situacao = 'SUSPENSA'\<close> the status sub-score is 10.
\<close>

theorem situacao_suspensa_pontua_10:
  "map_of (detalhes (calcularScoreEstimado lib_exemplo hoje_exemplo calculado_exemplo
      (Some (Dados (normalized0\<lparr>razaoSocial := JStr ''ACME LTDA'', situacao := JStr ''SUSPENSA''\<rparr>)
         (Some ''BrasilAPI'') (Some True) (Some calculado_exemplo))))) ''situacao'' = Some 10"
  by (simp add: avaliar)

text \<open>
  C3. The claim gives 25, 20, 15 and 5 points at 10, 5 and 2 years, as the scoring
  table of the dashboard documentation does; the code gives 25 from 5 years, 15 from 2
  years, 8 from 1 year and nothing below. A company founded on 1 January 2015 has, on
  1 January 2022 (2557 days, 7 years), 25 points where the claim says 20; on 1 July
  2016 (547.5 days, 1.5 years), 8 points where the claim says 5; on 2 July 2015 (182.5
  days), 0 points where the claim says 5.
\<close>

theorem tempo_atividade_pontos:
  "map_of (detalhes (calcularScoreEstimado lib_exemplo 1640995200000 calculado_exemplo
      (Some (Dados (normalized0\<lparr>razaoSocial := JStr ''ACME LTDA'', dataAbertura := JStr ''2015-01-01''\<rparr>)
         (Some ''BrasilAPI'') (Some True) (Some calculado_exemplo))))) ''tempo_atividade'' = Some 25 \<and>
   map_of (detalhes (calcularScoreEstimado lib_exemplo 1467374400000 calculado_exemplo
      (Some (Dados (normalized0\<lparr>razaoSocial := JStr ''ACME LTDA'', dataAbertura := JStr ''2015-01-01''\<rparr>)
         (Some ''BrasilAPI'') (Some True) (Some calculado_exemplo))))) ''tempo_atividade'' = Some 8 \<and>
   map_of (detalhes (calcularScoreEstimado lib_exemplo 1435838400000 calculado_exemplo
      (Some (Dados (normalized0\<lparr>razaoSocial := JStr ''ACME LTDA'', dataAbertura := JStr ''2015-01-01''\<rparr>)
         (Some ''BrasilAPI'') (Some True) (Some calculado_exemplo))))) ''tempo_atividade'' = Some 0"
  by (simp add: avaliar)












text \<open>
  C10, as the code has it. For \<open>null\<close> and for a profile with \<open>success = false\<close> the
  result is score 0, the classification 'Indisponivel', the single factor message and
  the five fields of \<open>detalhes\<close> at 0, with no \<open>cor\<close>, no \<open>recomendacao\<close> and no
  \<open>calculadoEm\<close>. The result computed from a successful profile has all three when no
  statement of the \<open>try\<close> block throws; when one throws, the result of the \<open>catch\<close>
  block (score 0, 'Erro', one factor message, the empty \<open>detalhes\<close> and the error
  message) has none of the three.
\<close>

theorem indisponivel_sem_campos:
  "((case dadosCNPJ of None \<Rightarrow> True | Some c \<Rightarrow> \<not> success c) \<longrightarrow>
      calcularScoreEstimado lib hoje calculado dadosCNPJ =
        \<lparr>score = 0, classificacao = Indisponivel, cor = None,
         fatores = [Dados_nao_disponiveis],
         detalhes = [(''situacao'', 0), (''tempo_atividade'', 0), (''capital_social'', 0),
                     (''atividade_principal'', 0), (''endereco'', 0)],
         recomendacao = None, calculadoEm = None, erro = None\<rparr>) \<and>
   (nao_lanca lib d \<longrightarrow>
      cor (calcularScoreEstimado lib hoje calculado (Some (Dados d src off ts))) \<noteq> None \<and>
      recomendacao (calcularScoreEstimado lib hoje calculado (Some (Dados d src off ts))) \<noteq> None \<and>
      calculadoEm (calcularScoreEstimado lib hoje calculado (Some (Dados d src off ts))) =
        Some calculado) \<and>
   (\<not> nao_lanca lib d \<longrightarrow>
      calcularScoreEstimado lib hoje calculado (Some (Dados d src off ts)) =
        \<lparr>score = 0, classificacao = Erro, cor = None, fatores = [Erro_no_calculo],
         detalhes = [], recomendacao = None, calculadoEm = None, erro = Some TypeError\<rparr>)"
proof -
  have a: "calcularScoreEstimado lib hoje calculado dadosCNPJ =
        \<lparr>score = 0, classificacao = Indisponivel, cor = None,
         fatores = [Dados_nao_disponiveis],
         detalhes = [(''situacao'', 0), (''tempo_atividade'', 0), (''capital_social'', 0),
                     (''atividade_principal'', 0), (''endereco'', 0)],
         recomendacao = None, calculadoEm = None, erro = None\<rparr>"
    if h: "case dadosCNPJ of None \<Rightarrow> True | Some c \<Rightarrow> \<not> success c"
  proof (cases dadosCNPJ)
    case None
    then show ?thesis
      by (simp add: calcularScoreEstimado_def entries_def detalhes0_def)
  next
    case (Some c)
    with h show ?thesis
      by (cases c) (simp_all add: calcularScoreEstimado_def entries_def detalhes0_def)
  qed
  have b: "cor (calcularScoreEstimado lib hoje calculado (Some (Dados d src off ts))) \<noteq> None \<and>
      recomendacao (calcularScoreEstimado lib hoje calculado (Some (Dados d src off ts))) \<noteq> None \<and>
      calculadoEm (calcularScoreEstimado lib hoje calculado (Some (Dados d src off ts))) =
        Some calculado"
    if t: "nao_lanca lib d"
  proof -
    obtain p f det where pt: "pontuar lib hoje d = Some (p, f, det)"
      using pontuar_None_iff[of lib hoje d] t by (cases "pontuar lib hoje d") auto
    show ?thesis by (simp add: detalhes_resultado[OF pt])
  qed
  have c: "calcularScoreEstimado lib hoje calculado (Some (Dados d src off ts)) =
        \<lparr>score = 0, classificacao = Erro, cor = None, fatores = [Erro_no_calculo],
         detalhes = [], recomendacao = None, calculadoEm = None, erro = Some TypeError\<rparr>"
    if t: "\<not> nao_lanca lib d"
    using pontuar_None_iff[of lib hoje d] t by (simp add: erro_resultado)
  show ?thesis using a b c by blast
qed

theorem indisponivel_sem_campos_witness:
  "calcularScoreEstimado lib_exemplo hoje_exemplo calculado_exemplo None =
     \<lparr>score = 0, classificacao = Indisponivel, cor = None,
      fatores = [Dados_nao_disponiveis],
      detalhes = [(''situacao'', 0), (''tempo_atividade'', 0), (''capital_social'', 0),
                  (''atividade_principal'', 0), (''endereco'', 0)],
      recomendacao = None, calculadoEm = None, erro = None\<rparr> \<and>
   \<not> success (Falha Todas_as_APIs_indisponiveis (Some ''todas_apis_falharam'') (Some calculado_exemplo)) \<and>
   calcularScoreEstimado lib_exemplo hoje_exemplo calculado_exemplo
     (Some (Falha Todas_as_APIs_indisponiveis (Some ''todas_apis_falharam'') (Some calculado_exemplo))) =
     \<lparr>score = 0, classificacao = Indisponivel, cor = None,
      fatores = [Dados_nao_disponiveis],
      detalhes = [(''situacao'', 0), (''tempo_atividade'', 0), (''capital_social'', 0),
                  (''atividade_principal'', 0), (''endereco'', 0)],
      recomendacao = None, calculadoEm = None, erro = None\<rparr> \<and>
   nao_lanca lib_exemplo dados_exemplo \<and>
   cor (calcularScoreEstimado lib_exemplo hoje_exemplo calculado_exemplo (Some consulta_exemplo)) =
     Some ''#ffc107'' \<and>
   recomendacao (calcularScoreEstimado lib_exemplo hoje_exemplo calculado_exemplo (Some consulta_exemplo)) =
     Some Condicoes_restritivas \<and>
   calculadoEm (calcularScoreEstimado lib_exemplo hoje_exemplo calculado_exemplo (Some consulta_exemplo)) =
     Some calculado_exemplo \<and>
   \<not> nao_lanca lib_exemplo dados_status_numerico \<and>
   classificacao (calcularScoreEstimado lib_exemplo hoje_exemplo calculado_exemplo
     (Some (Dados dados_status_numerico (Some ''BrasilAPI'') (Some True) (Some calculado_exemplo)))) =
     Erro"
  using
    indisponivel_sem_campos [of None lib_exemplo hoje_exemplo calculado_exemplo dados_exemplo
      "Some ''BrasilAPI''" "Some True" "Some ''2022-01-01T00:00:00.000Z''"]
    indisponivel_sem_campos [of
      "Some (Falha Todas_as_APIs_indisponiveis (Some ''todas_apis_falharam'') (Some calculado_exemplo))"
      lib_exemplo hoje_exemplo calculado_exemplo dados_status_numerico
      "Some ''BrasilAPI''" "Some True" "Some calculado_exemplo"]
  by (simp add: avaliar consulta_exemplo_def dados_exemplo_def dados_status_numerico_def
      nao_lanca_def hoje_exemplo_def)

text \<open>
  C10 as stated fails for a successful profile on which the computation throws: the
  BrasilAPI branch of \<open>normalizarDadosCNPJ\<close> builds a profile with \<open>success: true\<close> from
  a body whose status is the number 2, and the result computed from it is the one of
  the \<open>catch\<close> block, with no \<open>cor\<close>, no \<open>recomendacao\<close> and no \<open>calculadoEm\<close>.
\<close>

theorem erro_sem_campos_counterexample:
  "normalizarDadosCNPJ lib_exemplo corpo_status_numerico ''BrasilAPI'' =
     Dados dados_status_numerico None None None \<and>
   success (Dados dados_status_numerico (Some ''BrasilAPI'') (Some True) (Some calculado_exemplo)) \<and>
   calcularScoreEstimado lib_exemplo hoje_exemplo calculado_exemplo
     (Some (Dados dados_status_numerico (Some ''BrasilAPI'') (Some True) (Some calculado_exemplo))) =
     \<lparr>score = 0, classificacao = Erro, cor = None, fatores = [Erro_no_calculo],
      detalhes = [], recomendacao = None, calculadoEm = None, erro = Some TypeError\<rparr>"
  by (simp add: avaliar dados_status_numerico_def corpo_status_numerico_def
      normalizarDadosCNPJ_def mapear_BrasilAPI_def js_or_def or_empty_def truthy_opt_def)

section \<open>Properties of the lookup\<close>

text \<open>The definitions that evaluate a lookup on a given network.\<close>

lemmas avaliar_consulta =
  consultarCNPJ_def is_digit_def apis_def tentar_api_def normalizarDadosCNPJ_def
  mapear_BrasilAPI_def mapear_ReceitaWS_def normalized0_def js_or_def or_empty_def
  truthy_opt_def template_def toStringOpt_def length_gt0_def index0_def Let_def

text \<open>
  A successful normalisation has a truthy \<open>razaoSocial\<close>, carries no \<open>source\<close>,
  \<open>official\<close> or \<open>consultedAt\<close>, and comes from one of the two branches.
\<close>

lemma normalizar_shape:
  "normalizarDadosCNPJ lib data apiName = Dados n src off t \<Longrightarrow>
   src = None \<and> off = None \<and> t = None \<and> truthy (razaoSocial n) \<and>
   (apiName = ''BrasilAPI'' \<or> apiName = ''ReceitaWS'')"
  by (auto simp: normalizarDadosCNPJ_def normalized0_def split: option.splits if_splits)

lemma normalizar_outros:
  "apiName \<noteq> ''BrasilAPI'' \<Longrightarrow> apiName \<noteq> ''ReceitaWS'' \<Longrightarrow>
   normalizarDadosCNPJ lib data apiName = Falha Dados_incompletos None None"
  by (simp add: normalizarDadosCNPJ_def normalized0_def)

lemma tentar_api_Some:
  assumes "tentar_api lib rede ts a = Some r"
  shows "\<exists>n st data. r = Dados n (Some (name a)) (Some (official_flag a)) (Some ts) \<and>
           rede (url a) = Some (Resposta True st (Some data)) \<and> truthy data \<and>
           js_get data ''status'' \<noteq> Some (JStr ''ERROR'') \<and>
           normalizarDadosCNPJ lib data (name a) = Dados n None None None"
proof -
  from assms obtain st data where
    r: "rede (url a) = Some (Resposta True st (Some data))" and t: "truthy data" and
    s: "js_get data ''status'' \<noteq> Some (JStr ''ERROR'')" and
    c: "(case normalizarDadosCNPJ lib data (name a) of
           Dados normalized src off t \<Rightarrow>
             Some (Dados normalized (Some (name a)) (Some (official_flag a)) (Some ts))
         | Falha e src t \<Rightarrow> None) = Some r"
    by (auto simp: tentar_api_def split: option.splits resposta.splits if_splits)
  from c obtain n src off t' where
    n: "normalizarDadosCNPJ lib data (name a) = Dados n src off t'" and
    r': "r = Dados n (Some (name a)) (Some (official_flag a)) (Some ts)"
    by (cases "normalizarDadosCNPJ lib data (name a)") auto
  from normalizar_shape[OF n] n r r' t s show ?thesis by auto
qed

lemma tentar_api_None_iff:
  "tentar_api lib rede ts a = None \<longleftrightarrow>
     rede (url a) = None \<or>
     (\<exists>st b. rede (url a) = Some (Resposta False st b)) \<or>
     (\<exists>st. rede (url a) = Some (Resposta True st None)) \<or>
     (\<exists>st data. rede (url a) = Some (Resposta True st (Some data)) \<and>
        (\<not> truthy data \<or> js_get data ''status'' = Some (JStr ''ERROR'') \<or>
         \<not> success (normalizarDadosCNPJ lib data (name a))))"
  by (auto simp: tentar_api_def split: option.splits resposta.splits consulta.splits)

text \<open>
  The loop returns the result of the first provider of the list whose pass succeeds,
  after requesting the URLs up to that provider in order; when no pass succeeds it
  has requested every URL and returns the aggregate failure.
\<close>

lemma percorrer_first:
  "percorrer lib rede ts as = (r, urls) \<Longrightarrow>
   (success r \<longrightarrow>
      (\<exists>pre a post. as = pre @ a # post \<and> (\<forall>b\<in>set pre. tentar_api lib rede ts b = None) \<and>
         tentar_api lib rede ts a = Some r \<and> urls = map url (pre @ [a]))) \<and>
   (\<not> success r \<longrightarrow>
      (\<forall>b\<in>set as. tentar_api lib rede ts b = None) \<and>
      r = Falha Todas_as_APIs_indisponiveis (Some ''todas_apis_falharam'') (Some ts) \<and>
      urls = map url as)"
proof (induction as arbitrary: r urls)
  case Nil
  then show ?case by auto
next
  case (Cons a as)
  show ?case
  proof (cases "tentar_api lib rede ts a")
    case (Some r')
    with Cons.prems have e: "r = r'" "urls = [url a]" by auto
    obtain n where "r' = Dados n (Some (name a)) (Some (official_flag a)) (Some ts)"
      using tentar_api_Some[OF Some] by blast
    then have "success r" using e by simp
    moreover have "\<exists>pre a' post. a # as = pre @ a' # post \<and>
        (\<forall>b\<in>set pre. tentar_api lib rede ts b = None) \<and>
        tentar_api lib rede ts a' = Some r \<and> urls = map url (pre @ [a'])"
      using Some e by (intro exI[of _ "[]"] exI[of _ a] exI[of _ as]) simp
    ultimately show ?thesis by blast
  next
    case None
    obtain r0 urls0 where p: "percorrer lib rede ts as = (r0, urls0)"
      by (cases "percorrer lib rede ts as")
    with None Cons.prems have e: "r = r0" "urls = url a # urls0" by auto
    note ih = Cons.IH[OF p]
    show ?thesis
    proof (cases "success r")
      case True
      with ih e obtain pre a' post where
        x: "as = pre @ a' # post" "\<forall>b\<in>set pre. tentar_api lib rede ts b = None"
           "tentar_api lib rede ts a' = Some r" "urls0 = map url (pre @ [a'])"
        by auto
      have "a # as = (a # pre) @ a' # post \<and>
            (\<forall>b\<in>set (a # pre). tentar_api lib rede ts b = None) \<and>
            tentar_api lib rede ts a' = Some r \<and> urls = map url ((a # pre) @ [a'])"
        using x None e by simp
      then show ?thesis using True by blast
    next
      case False
      with ih e None show ?thesis by auto
    qed
  qed
qed

lemma consultar_source:
  "source (fst (consultarCNPJ lib rede ts cnpj_in)) \<noteq> Some ''CNPJ.ws'' \<and>
   (success (fst (consultarCNPJ lib rede ts cnpj_in)) \<longrightarrow>
      source (fst (consultarCNPJ lib rede ts cnpj_in)) = Some ''BrasilAPI'' \<or>
      source (fst (consultarCNPJ lib rede ts cnpj_in)) = Some ''ReceitaWS'')"
proof (cases "length (filter is_digit cnpj_in) = 14")
  case False
  then show ?thesis by (simp add: consultarCNPJ_def)
next
  case True
  obtain r urls where p: "percorrer lib rede ts (apis (filter is_digit cnpj_in)) = (r, urls)"
    by (cases "percorrer lib rede ts (apis (filter is_digit cnpj_in))")
  have c: "fst (consultarCNPJ lib rede ts cnpj_in) = r"
    using True p by (simp add: consultarCNPJ_def)
  show ?thesis
  proof (cases "success r")
    case False
    with percorrer_first[OF p] c show ?thesis by simp
  next
    case True
    with percorrer_first[OF p] obtain a where t: "tentar_api lib rede ts a = Some r"
      by blast
    obtain n st data where
      r: "r = Dados n (Some (name a)) (Some (official_flag a)) (Some ts)" and
      nz: "normalizarDadosCNPJ lib data (name a) = Dados n None None None"
      using tentar_api_Some[OF t] by blast
    from normalizar_shape[OF nz] r c True show ?thesis by auto
  qed
qed

lemma consulta_receitaws:
  "consultarCNPJ lib_exemplo rede_exemplo calculado_exemplo ''11.222.333/0001-81'' =
     (Dados dados_receitaws (Some ''ReceitaWS'') (Some False) (Some calculado_exemplo),
      [''https://brasilapi.com.br/api/cnpj/v1/11222333000181'',
       ''https://www.receitaws.com.br/v1/cnpj/11222333000181''])"
  by (simp add: avaliar_consulta rede_exemplo_def corpo_exemplo_def dados_receitaws_def)

lemma consulta_sem_rede:
  "consultarCNPJ lib_exemplo (\<lambda>u. None) calculado_exemplo ''11.222.333/0001-81'' =
     (Falha Todas_as_APIs_indisponiveis (Some ''todas_apis_falharam'') (Some calculado_exemplo),
      [''https://brasilapi.com.br/api/cnpj/v1/11222333000181'',
       ''https://www.receitaws.com.br/v1/cnpj/11222333000181'',
       ''https://cnpj.ws/cnpj/11222333000181''])"
  by (simp add: avaliar_consulta)

lemma consulta_terceiro:
  "consultarCNPJ lib_exemplo rede_terceiro calculado_exemplo ''11.222.333/0001-81'' =
     (Falha Todas_as_APIs_indisponiveis (Some ''todas_apis_falharam'') (Some calculado_exemplo),
      [''https://brasilapi.com.br/api/cnpj/v1/11222333000181'',
       ''https://www.receitaws.com.br/v1/cnpj/11222333000181'',
       ''https://cnpj.ws/cnpj/11222333000181''])"
  by (simp add: avaliar_consulta rede_terceiro_def corpo_exemplo_def)

lemma l14: "length (filter is_digit ''11.222.333/0001-81'') = 14"
  by (simp add: is_digit_def)

text \<open>
  C4. When the digits of the identifier are not exactly 14, \<open>consultarCNPJ\<close> returns
  the failure with \<open>success: false\<close> and \<open>source: 'validacao'\<close> (the tag that the
  claim renders as "validation"), whatever the network would answer, and requests no
  URL.
\<close>

theorem consultarCNPJ_validacao:
  "length (filter is_digit cnpj_in) \<noteq> 14 \<longrightarrow>
     consultarCNPJ lib rede ts cnpj_in =
       (Falha CNPJ_deve_ter_14_digitos (Some ''validacao'') None, []) \<and>
     \<not> success (fst (consultarCNPJ lib rede ts cnpj_in)) \<and>
     source (fst (consultarCNPJ lib rede ts cnpj_in)) = Some ''validacao'' \<and>
     snd (consultarCNPJ lib rede ts cnpj_in) = []"
  by (simp add: consultarCNPJ_def)

theorem consultarCNPJ_validacao_witness:
  "length (filter is_digit ''11.222.333/0001'') \<noteq> 14 \<and>
   consultarCNPJ lib_exemplo rede_exemplo calculado_exemplo ''11.222.333/0001'' =
     (Falha CNPJ_deve_ter_14_digitos (Some ''validacao'') None, []) \<and>
   length (filter is_digit ''112223330001811'') \<noteq> 14 \<and>
   snd (consultarCNPJ lib_exemplo rede_exemplo calculado_exemplo ''112223330001811'') = []"
  using consultarCNPJ_validacao [of "''11.222.333/0001''" lib_exemplo rede_exemplo calculado_exemplo]
    consultarCNPJ_validacao [of "''112223330001811''" lib_exemplo rede_exemplo calculado_exemplo]
  by (simp add: is_digit_def)

text \<open>
  C5. The provider list is fixed: BrasilAPI (official), ReceitaWS, CNPJ.ws. A pass of
  the loop gives nothing exactly when the request fails, the status is not a success,
  the body does not parse, the body is falsy or carries \<open>status: 'ERROR'\<close>, or the
  normalisation fails, and a normalisation succeeds only with a legal name. With a
  14-digit identifier, a successful lookup returns the profile of the first provider
  in list order whose pass succeeds, all passes before it having given nothing, after
  requesting exactly the URLs up to that provider, annotated with the name and the
  official flag of that provider and the timestamp; a lookup that does not succeed has
  requested every URL in order, no pass having succeeded, and returns the failure with
  \<open>source: 'todas_apis_falharam'\<close> (the tag that the claim renders as
  "all_providers_failed") and the timestamp.
\<close>

theorem consultarCNPJ_fallback:
  "map name (apis c) = [''BrasilAPI'', ''ReceitaWS'', ''CNPJ.ws''] \<and>
   map official_flag (apis c) = [True, False, False] \<and>
   (tentar_api lib rede ts a = None \<longleftrightarrow>
      rede (url a) = None \<or>
      (\<exists>st b. rede (url a) = Some (Resposta False st b)) \<or>
      (\<exists>st. rede (url a) = Some (Resposta True st None)) \<or>
      (\<exists>st data. rede (url a) = Some (Resposta True st (Some data)) \<and>
         (\<not> truthy data \<or> js_get data ''status'' = Some (JStr ''ERROR'') \<or>
          \<not> success (normalizarDadosCNPJ lib data (name a))))) \<and>
   (\<forall>n src off t. normalizarDadosCNPJ lib data apiName = Dados n src off t \<longrightarrow>
      truthy (razaoSocial n)) \<and>
   (length (filter is_digit cnpj_in) = 14 \<and> consultarCNPJ lib rede ts cnpj_in = (r, urls) \<longrightarrow>
      (success r \<longrightarrow>
         (\<exists>pre p post. apis (filter is_digit cnpj_in) = pre @ p # post \<and>
            (\<forall>b\<in>set pre. tentar_api lib rede ts b = None) \<and>
            tentar_api lib rede ts p = Some r \<and>
            urls = map url (pre @ [p]) \<and>
            source r = Some (name p) \<and> official r = Some (official_flag p) \<and>
            consultedAt r = Some ts \<and>
            (\<exists>st body n. rede (url p) = Some (Resposta True st (Some body)) \<and>
               normalizarDadosCNPJ lib body (name p) = Dados n None None None \<and>
               r = Dados n (Some (name p)) (Some (official_flag p)) (Some ts)))) \<and>
      (\<not> success r \<longrightarrow>
         (\<forall>b\<in>set (apis (filter is_digit cnpj_in)). tentar_api lib rede ts b = None) \<and>
         r = Falha Todas_as_APIs_indisponiveis (Some ''todas_apis_falharam'') (Some ts) \<and>
         consultedAt r = Some ts \<and>
         urls = map url (apis (filter is_digit cnpj_in))))"
proof -
  have a: "map name (apis c) = [''BrasilAPI'', ''ReceitaWS'', ''CNPJ.ws''] \<and>
           map official_flag (apis c) = [True, False, False]"
    by (simp add: apis_def)
  have b: "\<forall>n src off t. normalizarDadosCNPJ lib data apiName = Dados n src off t \<longrightarrow>
             truthy (razaoSocial n)"
    using normalizar_shape by blast
  have d: "(success r \<longrightarrow>
         (\<exists>pre p post. apis (filter is_digit cnpj_in) = pre @ p # post \<and>
            (\<forall>b\<in>set pre. tentar_api lib rede ts b = None) \<and>
            tentar_api lib rede ts p = Some r \<and>
            urls = map url (pre @ [p]) \<and>
            source r = Some (name p) \<and> official r = Some (official_flag p) \<and>
            consultedAt r = Some ts \<and>
            (\<exists>st body n. rede (url p) = Some (Resposta True st (Some body)) \<and>
               normalizarDadosCNPJ lib body (name p) = Dados n None None None \<and>
               r = Dados n (Some (name p)) (Some (official_flag p)) (Some ts)))) \<and>
      (\<not> success r \<longrightarrow>
         (\<forall>b\<in>set (apis (filter is_digit cnpj_in)). tentar_api lib rede ts b = None) \<and>
         r = Falha Todas_as_APIs_indisponiveis (Some ''todas_apis_falharam'') (Some ts) \<and>
         consultedAt r = Some ts \<and>
         urls = map url (apis (filter is_digit cnpj_in)))"
    if len: "length (filter is_digit cnpj_in) = 14"
      and res: "consultarCNPJ lib rede ts cnpj_in = (r, urls)"
  proof -
    have p: "percorrer lib rede ts (apis (filter is_digit cnpj_in)) = (r, urls)"
      using len res by (simp add: consultarCNPJ_def)
    show ?thesis
    proof (cases "success r")
      case False
      with percorrer_first[OF p] show ?thesis by simp
    next
      case True
      with percorrer_first[OF p] obtain pre p' post where
        x: "apis (filter is_digit cnpj_in) = pre @ p' # post"
           "\<forall>b\<in>set pre. tentar_api lib rede ts b = None"
           "tentar_api lib rede ts p' = Some r" "urls = map url (pre @ [p'])"
        by blast
      obtain n st body where
        y: "r = Dados n (Some (name p')) (Some (official_flag p')) (Some ts)"
           "rede (url p') = Some (Resposta True st (Some body))"
           "normalizarDadosCNPJ lib body (name p') = Dados n None None None"
        using tentar_api_Some[OF x(3)] by blast
      have "apis (filter is_digit cnpj_in) = pre @ p' # post \<and>
            (\<forall>b\<in>set pre. tentar_api lib rede ts b = None) \<and>
            tentar_api lib rede ts p' = Some r \<and>
            urls = map url (pre @ [p']) \<and>
            source r = Some (name p') \<and> official r = Some (official_flag p') \<and>
            consultedAt r = Some ts \<and>
            (\<exists>st body n. rede (url p') = Some (Resposta True st (Some body)) \<and>
               normalizarDadosCNPJ lib body (name p') = Dados n None None None \<and>
               r = Dados n (Some (name p')) (Some (official_flag p')) (Some ts))"
        using x y by auto
      then show ?thesis using True by blast
    qed
  qed
  show ?thesis
    using a b d tentar_api_None_iff[of lib rede ts a] by blast
qed

theorem consultarCNPJ_fallback_witness:
  "length (filter is_digit ''11.222.333/0001-81'') = 14 \<and>
   consultarCNPJ lib_exemplo rede_exemplo calculado_exemplo ''11.222.333/0001-81'' =
     (Dados dados_receitaws (Some ''ReceitaWS'') (Some False) (Some calculado_exemplo),
      [''https://brasilapi.com.br/api/cnpj/v1/11222333000181'',
       ''https://www.receitaws.com.br/v1/cnpj/11222333000181'']) \<and>
   success (Dados dados_receitaws (Some ''ReceitaWS'') (Some False) (Some calculado_exemplo)) \<and>
   rede_exemplo ''https://brasilapi.com.br/api/cnpj/v1/11222333000181'' = None \<and>
   consultarCNPJ lib_exemplo (\<lambda>u. None) calculado_exemplo ''11.222.333/0001-81'' =
     (Falha Todas_as_APIs_indisponiveis (Some ''todas_apis_falharam'') (Some calculado_exemplo),
      [''https://brasilapi.com.br/api/cnpj/v1/11222333000181'',
       ''https://www.receitaws.com.br/v1/cnpj/11222333000181'',
       ''https://cnpj.ws/cnpj/11222333000181''])"
  using
    consultarCNPJ_fallback [where c = "''11222333000181''" and lib = lib_exemplo
      and rede = rede_exemplo and ts = calculado_exemplo
      and a = "\<lparr>name = ''BrasilAPI'', url = ''https://brasilapi.com.br/api/cnpj/v1/11222333000181'',
                 official_flag = True\<rparr>"
      and data = corpo_exemplo and apiName = "''ReceitaWS''"
      and cnpj_in = "''11.222.333/0001-81''"
      and r = "Dados dados_receitaws (Some ''ReceitaWS'') (Some False) (Some calculado_exemplo)"
      and urls = "[''https://brasilapi.com.br/api/cnpj/v1/11222333000181'',
                   ''https://www.receitaws.com.br/v1/cnpj/11222333000181'']"]
    consulta_receitaws consulta_sem_rede l14
  by (simp add: rede_exemplo_def)

text \<open>
  C9. \<open>normalizarDadosCNPJ\<close> maps the fields of BrasilAPI and ReceitaWS only: for any
  other provider name, so for 'CNPJ.ws', every body leaves \<open>razaoSocial\<close> empty and
  the result is the failure for incomplete data. The pass of the loop for CNPJ.ws
  therefore never succeeds, no result of \<open>consultarCNPJ\<close> has \<open>source: 'CNPJ.ws'\<close>,
  and a successful one has the source BrasilAPI or ReceitaWS.
\<close>

theorem terceiro_provedor_inalcancavel:
  "(apiName \<noteq> ''BrasilAPI'' \<and> apiName \<noteq> ''ReceitaWS'' \<longrightarrow>
      normalizarDadosCNPJ lib data apiName = Falha Dados_incompletos None None) \<and>
   normalizarDadosCNPJ lib data ''CNPJ.ws'' = Falha Dados_incompletos None None \<and>
   \<not> success (normalizarDadosCNPJ lib data ''CNPJ.ws'') \<and>
   tentar_api lib rede ts \<lparr>name = ''CNPJ.ws'', url = u, official_flag = False\<rparr> = None \<and>
   source (fst (consultarCNPJ lib rede ts cnpj_in)) \<noteq> Some ''CNPJ.ws'' \<and>
   (success (fst (consultarCNPJ lib rede ts cnpj_in)) \<longrightarrow>
      source (fst (consultarCNPJ lib rede ts cnpj_in)) = Some ''BrasilAPI'' \<or>
      source (fst (consultarCNPJ lib rede ts cnpj_in)) = Some ''ReceitaWS'')"
proof -
  have n: "normalizarDadosCNPJ lib d ''CNPJ.ws'' = Falha Dados_incompletos None None" for d
    by (simp add: normalizar_outros)
  have t: "tentar_api lib rede ts \<lparr>name = ''CNPJ.ws'', url = u, official_flag = False\<rparr> = None"
    by (simp add: tentar_api_def n split: option.splits resposta.splits)
  show ?thesis
    using n t normalizar_outros[of apiName lib data] consultar_source[of lib rede ts cnpj_in]
    by simp
qed

theorem terceiro_provedor_inalcancavel_witness:
  "normalizarDadosCNPJ lib_exemplo corpo_exemplo ''CNPJ.ws'' = Falha Dados_incompletos None None \<and>
   success (normalizarDadosCNPJ lib_exemplo corpo_exemplo ''ReceitaWS'') \<and>
   success (normalizarDadosCNPJ lib_exemplo corpo_exemplo ''BrasilAPI'') \<and>
   consultarCNPJ lib_exemplo rede_terceiro calculado_exemplo ''11.222.333/0001-81'' =
     (Falha Todas_as_APIs_indisponiveis (Some ''todas_apis_falharam'') (Some calculado_exemplo),
      [''https://brasilapi.com.br/api/cnpj/v1/11222333000181'',
       ''https://www.receitaws.com.br/v1/cnpj/11222333000181'',
       ''https://cnpj.ws/cnpj/11222333000181'']) \<and>
   success (fst (consultarCNPJ lib_exemplo rede_exemplo calculado_exemplo ''11.222.333/0001-81'')) \<and>
   source (fst (consultarCNPJ lib_exemplo rede_exemplo calculado_exemplo ''11.222.333/0001-81'')) =
     Some ''ReceitaWS''"
  using
    terceiro_provedor_inalcancavel [where apiName = "''CNPJ.ws''" and lib = lib_exemplo
      and data = corpo_exemplo and rede = rede_exemplo and ts = calculado_exemplo
      and u = "''https://cnpj.ws/cnpj/11222333000181''" and cnpj_in = "''11.222.333/0001-81''"]
    consulta_receitaws consulta_terceiro
  by (simp add: avaliar_consulta corpo_exemplo_def)

end
